theory Spec2Isabelle
  imports Main "HOL-Library.AList"
begin

text \<open>
  A model of \<^verbatim>\<open>tribler_core/upgrade/config_converter.py\<close>: the merge of the legacy settings
  files \<^verbatim>\<open>libtribler.conf\<close> and \<^verbatim>\<open>tribler.conf\<close> into the settings object, and the three
  converters of the checkpoint directory. Every function of the module is a function here with
  the same name; a loop body that the module writes inline has a name of its own. Exceptions
  are values: a function that may raise returns \<open>Inl\<close> of the exception, and a function that
  works on the state directory returns the directory as the exception leaves it.
\<close>

section \<open>Python values and exceptions\<close>

text \<open>
  The values \<^verbatim>\<open>ast.literal_eval\<close> produces and the settings hold: the constructors are the
  shapes the converter tells apart (\<^verbatim>\<open>isinstance(value, list)\<close>,
  \<^verbatim>\<open>isinstance(value, tuple)\<close>, truthiness). Floats, sets and complex numbers are left out:
  no branch of the converter looks at them.
\<close>

datatype pyval =
    PNone
  | PBool bool
  | PInt int
  | PStr string
  | PBytes string
  | PList "pyval list"
  | PTuple "pyval list"
  | PDict "(pyval \<times> pyval) list"

text \<open>Python truthiness, as used by \<^verbatim>\<open>not x\<close> and \<^verbatim>\<open>x or y\<close>.\<close>

fun truthy :: "pyval \<Rightarrow> bool" where
  "truthy PNone = False"
| "truthy (PBool b) = b"
| "truthy (PInt i) = (i \<noteq> 0)"
| "truthy (PStr s) = (s \<noteq> [])"
| "truthy (PBytes s) = (s \<noteq> [])"
| "truthy (PList xs) = (xs \<noteq> [])"
| "truthy (PTuple xs) = (xs \<noteq> [])"
| "truthy (PDict kvs) = (kvs \<noteq> [])"

text \<open>
  The exceptions that can leave a statement of the converter. A subclass counts as the class an
  \<^verbatim>\<open>except\<close> clause would catch it under; \<open>OtherError\<close> stands for everything no clause of the
  converter names.
\<close>

datatype exn =
    ValueError
  | SyntaxError
  | TypeError
  | IndexError
  | KeyError
  | MissingSectionHeaderError
  | NoSectionError
  | DuplicateSectionError
  | FileNotFoundError
  | OtherError string

text \<open>Sequencing of statements that may raise: the first exception ends the block.\<close>

definition and_then :: "exn + 'c \<Rightarrow> ('c \<Rightarrow> exn + 'd) \<Rightarrow> exn + 'd" where
  "and_then r f = (case r of Inl e \<Rightarrow> Inl e | Inr c \<Rightarrow> f c)"

text \<open>An \<^verbatim>\<open>if\<close> statement without \<^verbatim>\<open>else\<close> whose body may raise.\<close>

definition when_do :: "bool \<Rightarrow> ('c \<Rightarrow> exn + 'c) \<Rightarrow> 'c \<Rightarrow> exn + 'c" where
  "when_do b f c = (if b then f c else Inr c)"

section \<open>Trees of sections\<close>

text \<open>
  A legacy file as \<^verbatim>\<open>RawConfigParser\<close> presents it: \<^verbatim>\<open>sections()\<close> in order, each with its
  \<^verbatim>\<open>items(section)\<close>, every value a raw string. A structured file and the settings object's
  \<^verbatim>\<open>config\<close> hold decoded values.
\<close>

type_synonym kv = "(string \<times> (string \<times> string) list) list"
type_synonym tree = "(string \<times> (string \<times> pyval) list) list"

text \<open>Reading one key of one section of a structured file, when it is there.\<close>

definition lookup_value :: "tree \<Rightarrow> string \<Rightarrow> string \<Rightarrow> pyval option" where
  "lookup_value t section key =
     (case map_of t section of None \<Rightarrow> None | Some items \<Rightarrow> map_of items key)"

text \<open>Reading one option of a legacy file: \<^verbatim>\<open>has_option\<close> and the raw string.\<close>

definition lookup_raw :: "kv \<Rightarrow> string \<Rightarrow> string \<Rightarrow> string option" where
  "lookup_raw cfg section option =
     (case map_of cfg section of None \<Rightarrow> None | Some items \<Rightarrow> map_of items option)"

section \<open>The settings object\<close>

text \<open>
  \<^verbatim>\<open>TriblerConfig\<close> is not under src/. The converter uses its nested map \<^verbatim>\<open>config\<close> directly;
  whatever else the object holds is \<open>attrs\<close>. Values are immutable here, so \<^verbatim>\<open>copy()\<close> is the
  identity: a change to the copy never shows in the original.
\<close>

record 'a tribler_config =
  config :: tree
  attrs :: 'a

text \<open>The typed setters the converter calls, by name.\<close>

datatype setter =
    Set_default_anonymity_enabled
  | Set_default_number_hops
  | Set_root_state_dir
  | Set_log_dir
  | Set_tunnel_community_enabled
  | Set_tunnel_community_socks5_listen_ports
  | Set_tunnel_community_exitnode_enabled
  | Set_trustchain_keypair_filename
  | Set_torrent_checking_enabled
  | Set_libtorrent_max_conn_download
  | Set_libtorrent_max_download_rate
  | Set_libtorrent_max_upload_rate
  | Set_libtorrent_utp
  | Set_anon_listen_port
  | Set_video_server_enabled
  | Set_video_server_port
  | Set_watch_folder_enabled
  | Set_watch_folder_path
  | Set_http_api_enabled
  | Set_http_api_port
  | Set_credit_mining_enabled
  | Set_credit_mining_sources

section \<open>The collaborators\<close>

text \<open>
  Everything the converter calls and src/ does not hold is a field of this record, so every
  theorem below holds for each behaviour of these collaborators. \<open>'f\<close> is the content of a file
  on disk.
  \<^item> \<open>literal_eval\<close>: \<^verbatim>\<open>ast.literal_eval\<close>.
  \<^item> \<open>py_str\<close>: the builtin \<^verbatim>\<open>str\<close>.
  \<^item> \<open>call_setter\<close>: the typed setters of \<^verbatim>\<open>TriblerConfig\<close>; a setter may raise.
  \<^item> \<open>validate\<close>: \<^verbatim>\<open>TriblerConfig.validate\<close>, which succeeds or raises
    \<^verbatim>\<open>InvalidConfigException\<close> (\<open>False\<close>), as section 6 of the spec has it.
  \<^item> \<open>rcp_read\<close>, \<open>rcp_write\<close>: reading and writing a file with \<^verbatim>\<open>RawConfigParser\<close>.
  \<^item> \<open>ccp_read\<close>: \<^verbatim>\<open>CallbackConfigParser.read_file\<close>; \<open>ccp_literal\<close>: what its \<^verbatim>\<open>get\<close>
    makes of a stored string when \<^verbatim>\<open>literal_eval\<close> is left at its default; \<open>ccp_missing\<close>:
    the exception that ends lines 220-221 when the parser has no such option (\<^verbatim>\<open>get\<close> raising,
    or returning a value that \<^verbatim>\<open>value+'\n'\<close> cannot take).
  \<^item> \<open>refactor_string\<close>: \<^verbatim>\<open>RefactoringTool.refactor_string\<close> followed by \<^verbatim>\<open>str\<close>.
  \<^item> \<open>recursive_ungarble_metainfo\<close>, \<open>bencode\<close> (\<^verbatim>\<open>lt.bencode\<close>), \<open>b64encode\<close>
    (\<^verbatim>\<open>base64.b64encode(...).decode('utf-8')\<close>).
  \<^item> \<open>cobj_load\<close>, \<open>cobj_write\<close>: \<^verbatim>\<open>ConfigObj(infile=...)\<close> on an existing file and
    \<^verbatim>\<open>ConfigObj.write\<close>.
  \<^item> \<open>dlc_load\<close>, \<open>dlc_write\<close>, \<open>get_metainfo\<close>, \<open>set_selected_files\<close>: \<^verbatim>\<open>DownloadConfig\<close>.
  \<^item> \<open>torrent_files\<close>: \<^verbatim>\<open>TorrentDef.load_from_dict\<close> and the ordered file table of the result.
\<close>

record ('a, 'f) env =
  literal_eval :: "string \<Rightarrow> exn + pyval"
  py_str :: "pyval \<Rightarrow> string"
  call_setter :: "setter \<Rightarrow> pyval \<Rightarrow> 'a tribler_config \<Rightarrow> exn + 'a tribler_config"
  validate :: "'a tribler_config \<Rightarrow> bool"
  rcp_read :: "'f \<Rightarrow> exn + kv"
  rcp_write :: "kv \<Rightarrow> 'f"
  ccp_read :: "'f \<Rightarrow> exn + kv"
  ccp_literal :: "string \<Rightarrow> pyval"
  ccp_missing :: exn
  refactor_string :: "string \<Rightarrow> string \<Rightarrow> exn + string"
  recursive_ungarble_metainfo :: "pyval \<Rightarrow> exn + pyval"
  bencode :: "pyval \<Rightarrow> exn + string"
  b64encode :: "string \<Rightarrow> string"
  cobj_load :: "'f \<Rightarrow> exn + tree"
  cobj_write :: "tree \<Rightarrow> 'f"
  dlc_load :: "'f \<Rightarrow> exn + tree"
  dlc_write :: "tree \<Rightarrow> 'f"
  get_metainfo :: "tree \<Rightarrow> exn + pyval"
  set_selected_files :: "pyval list \<Rightarrow> tree \<Rightarrow> tree"
  torrent_files :: "pyval \<Rightarrow> exn + string list"

section \<open>Merging the legacy global settings\<close>

text \<open>
  \<^verbatim>\<open>try: value = ast.literal_eval(string_value)
  except (ValueError, SyntaxError): value = string_value\<close>
\<close>

definition decode_value :: "('a, 'f) env \<Rightarrow> string \<Rightarrow> exn + pyval" where
  "decode_value env string_value =
     (case literal_eval env string_value of
        Inr value \<Rightarrow> Inr value
      | Inl e \<Rightarrow> if e = ValueError \<or> e = SyntaxError then Inr (PStr string_value) else Inl e)"

text \<open>
  \<^verbatim>\<open>temp_config.config[section][key] = value\<close>: the lookup of the section raises
  \<^verbatim>\<open>KeyError\<close> when the settings have no such section.
\<close>

definition set_item :: "string \<Rightarrow> string \<Rightarrow> pyval \<Rightarrow> 'a tribler_config \<Rightarrow> exn + 'a tribler_config" where
  "set_item section key value c =
     (case map_of (config c) section of
        None \<Rightarrow> Inl KeyError
      | Some items \<Rightarrow>
          Inr (c\<lparr>config := AList.update section (AList.update key value items) (config c)\<rparr>))"

text \<open>Reading one setting: \<^verbatim>\<open>config.config[section][key]\<close>, when it is there.\<close>

definition setting :: "'a tribler_config \<Rightarrow> string \<Rightarrow> string \<Rightarrow> pyval option" where
  "setting c section key =
     (case map_of (config c) section of None \<Rightarrow> None | Some items \<Rightarrow> map_of items key)"

text \<open>The chain of independent \<^verbatim>\<open>if\<close> statements of \<^verbatim>\<open>add_tribler_config\<close> (lines 93-106).\<close>

definition tribler_mutation ::
  "('a, 'f) env \<Rightarrow> string \<Rightarrow> string \<Rightarrow> pyval \<Rightarrow> 'a tribler_config \<Rightarrow> exn + 'a tribler_config" where
  "tribler_mutation env section name value temp_config =
     and_then (when_do (section = ''Tribler'' \<and> name = ''default_anonymity_enabled'')
                 (call_setter env Set_default_anonymity_enabled value) temp_config) (\<lambda>c1.
     and_then (when_do (section = ''Tribler'' \<and> name = ''default_number_hops'')
                 (call_setter env Set_default_number_hops value) c1) (\<lambda>c2.
     and_then (when_do (section = ''downloadconfig'' \<and> name = ''saveas'')
                 (set_item ''download_defaults'' ''saveas'' value) c2) (\<lambda>c3.
     and_then (when_do (section = ''downloadconfig'' \<and> name = ''seeding_mode'')
                 (set_item ''download_defaults'' ''seeding_mode'' value) c3) (\<lambda>c4.
     and_then (when_do (section = ''downloadconfig'' \<and> name = ''seeding_ratio'')
                 (set_item ''download_defaults'' ''seeding_ratio'' value) c4) (\<lambda>c5.
     and_then (when_do (section = ''downloadconfig'' \<and> name = ''seeding_time'')
                 (set_item ''download_defaults'' ''seeding_time'' value) c5) (\<lambda>c6.
     when_do (section = ''downloadconfig'' \<and> name = ''version'')
                 (set_item ''download_defaults'' ''version'' value) c6))))))"

text \<open>
  The branch for \<^verbatim>\<open>anon_proxyserver\<close> (lines 170-173):
  \<^verbatim>\<open>if isinstance(value, tuple) and isinstance(value[1], list)\<close>. Indexing a tuple with fewer
  than two elements raises \<^verbatim>\<open>IndexError\<close>.
\<close>

definition set_anon_proxyserver ::
  "('a, 'f) env \<Rightarrow> pyval \<Rightarrow> 'a tribler_config \<Rightarrow> exn + 'a tribler_config" where
  "set_anon_proxyserver env value temp_config =
     (case value of
        PTuple xs \<Rightarrow>
          (if length xs < 2 then Inl IndexError
           else (case xs ! 1 of
                   PList ports \<Rightarrow>
                     and_then (set_item ''libtorrent'' ''anon_proxy_server_ip'' (xs ! 0) temp_config)
                       (set_item ''libtorrent'' ''anon_proxy_server_ports''
                          (PList (map (\<lambda>port. PStr (py_str env port)) ports)))
                 | _ \<Rightarrow> Inr temp_config))
      | _ \<Rightarrow> Inr temp_config)"

text \<open>The branch for \<^verbatim>\<open>socks5_listen_ports\<close> (lines 143-145).\<close>

definition set_socks5_listen_ports ::
  "('a, 'f) env \<Rightarrow> pyval \<Rightarrow> 'a tribler_config \<Rightarrow> exn + 'a tribler_config" where
  "set_socks5_listen_ports env value temp_config =
     (case value of
        PList ports \<Rightarrow> call_setter env Set_tunnel_community_socks5_listen_ports value temp_config
      | _ \<Rightarrow> Inr temp_config)"

text \<open>The \<^verbatim>\<open>if\<close>/\<^verbatim>\<open>elif\<close> chain of \<^verbatim>\<open>add_libtribler_config\<close> (lines 137-191).\<close>

definition libtribler_mutation ::
  "('a, 'f) env \<Rightarrow> string \<Rightarrow> string \<Rightarrow> pyval \<Rightarrow> 'a tribler_config \<Rightarrow> exn + 'a tribler_config" where
  "libtribler_mutation env section name value temp_config =
     (if section = ''general'' \<and> name = ''state_dir'' then
        call_setter env Set_root_state_dir value temp_config
      else if section = ''general'' \<and> name = ''log_dir'' then
        call_setter env Set_log_dir value temp_config
      else if section = ''tunnel_community'' \<and> name = ''enabled'' then
        call_setter env Set_tunnel_community_enabled value temp_config
      else if section = ''tunnel_community'' \<and> name = ''socks5_listen_ports'' then
        set_socks5_listen_ports env value temp_config
      else if section = ''tunnel_community'' \<and> name = ''exitnode_enabled'' then
        call_setter env Set_tunnel_community_exitnode_enabled value temp_config
      else if section = ''general'' \<and> name = ''ec_keypair_filename_multichain'' then
        call_setter env Set_trustchain_keypair_filename value temp_config
      else if section = ''torrent_checking'' \<and> name = ''enabled'' then
        call_setter env Set_torrent_checking_enabled value temp_config
      else if section = ''libtorrent'' \<and> name = ''lt_proxytype'' then
        set_item ''libtorrent'' ''proxy_type'' value temp_config
      else if section = ''libtorrent'' \<and> name = ''lt_proxyserver'' then
        set_item ''libtorrent'' ''proxy_server'' value temp_config
      else if section = ''libtorrent'' \<and> name = ''lt_proxyauth'' then
        set_item ''libtorrent'' ''proxy_auth'' value temp_config
      else if section = ''libtorrent'' \<and> name = ''max_connections_download'' then
        call_setter env Set_libtorrent_max_conn_download value temp_config
      else if section = ''libtorrent'' \<and> name = ''max_download_rate'' then
        call_setter env Set_libtorrent_max_download_rate value temp_config
      else if section = ''libtorrent'' \<and> name = ''max_upload_rate'' then
        call_setter env Set_libtorrent_max_upload_rate value temp_config
      else if section = ''libtorrent'' \<and> name = ''utp'' then
        call_setter env Set_libtorrent_utp value temp_config
      else if section = ''libtorrent'' \<and> name = ''anon_listen_port'' then
        call_setter env Set_anon_listen_port value temp_config
      else if section = ''libtorrent'' \<and> name = ''anon_proxytype'' then
        set_item ''libtorrent'' ''anon_proxy_type'' value temp_config
      else if section = ''libtorrent'' \<and> name = ''anon_proxyserver'' then
        set_anon_proxyserver env value temp_config
      else if section = ''libtorrent'' \<and> name = ''anon_proxyauth'' then
        set_item ''libtorrent'' ''anon_proxy_auth'' value temp_config
      else if section = ''video'' \<and> name = ''enabled'' then
        call_setter env Set_video_server_enabled value temp_config
      else if section = ''video'' \<and> name = ''port'' then
        call_setter env Set_video_server_port value temp_config
      else if section = ''watch_folder'' \<and> name = ''enabled'' then
        call_setter env Set_watch_folder_enabled value temp_config
      else if section = ''watch_folder'' \<and> name = ''watch_folder_dir'' then
        call_setter env Set_watch_folder_path value temp_config
      else if section = ''http_api'' \<and> name = ''enabled'' then
        call_setter env Set_http_api_enabled value temp_config
      else if section = ''http_api'' \<and> name = ''port'' then
        call_setter env Set_http_api_port value temp_config
      else if section = ''credit_mining'' \<and> name = ''enabled'' then
        call_setter env Set_credit_mining_enabled value temp_config
      else if section = ''credit_mining'' \<and> name = ''sources'' then
        call_setter env Set_credit_mining_sources value temp_config
      else Inr temp_config)"

text \<open>
  What the loop body does with one field, in order: \<open>LiteralEval\<close> is the call of
  \<^verbatim>\<open>ast.literal_eval\<close>, \<open>Dispatch\<close> the copy of the baseline and the walk through the chain of
  comparisons with the decoded value, \<open>Validate\<close> the call of \<^verbatim>\<open>validate()\<close>, \<open>LogDebug\<close> the
  \<^verbatim>\<open>logger.debug\<close> of the handler.
\<close>

datatype call =
    LiteralEval string
  | Dispatch string string pyval
  | Validate
  | LogDebug

text \<open>
  The body of the two loops (lines 83-112 and 127-197), which differ in the chain \<open>mutate\<close>
  only. The result is the new baseline and the calls made; an exception that no handler of the
  body catches ends the whole merge.
\<close>

definition merge_field ::
  "('a, 'f) env \<Rightarrow> (string \<Rightarrow> string \<Rightarrow> pyval \<Rightarrow> 'a tribler_config \<Rightarrow> exn + 'a tribler_config) \<Rightarrow>
   'a tribler_config \<Rightarrow> string \<times> string \<times> string \<Rightarrow> exn + ('a tribler_config \<times> call list)" where
  "merge_field env mutate config0 field =
     (case field of (section, name, string_value) \<Rightarrow>
        if string_value = ''None'' then Inr (config0, [])
        else
          (case decode_value env string_value of
             Inl e \<Rightarrow> Inl e
           | Inr value \<Rightarrow>
               (case mutate section name value config0 of
                  Inl e \<Rightarrow> Inl e
                | Inr temp_config \<Rightarrow>
                    if validate env temp_config
                    then Inr (temp_config,
                              [LiteralEval string_value, Dispatch section name value, Validate])
                    else Inr (config0,
                              [LiteralEval string_value, Dispatch section name value, Validate,
                               LogDebug]))))"

fun merge_fields ::
  "('a, 'f) env \<Rightarrow> (string \<Rightarrow> string \<Rightarrow> pyval \<Rightarrow> 'a tribler_config \<Rightarrow> exn + 'a tribler_config) \<Rightarrow>
   'a tribler_config \<Rightarrow> (string \<times> string \<times> string) list \<Rightarrow> exn + ('a tribler_config \<times> call list)" where
  "merge_fields env mutate config0 [] = Inr (config0, [])"
| "merge_fields env mutate config0 (field # rest) =
     (case merge_field env mutate config0 field of
        Inl e \<Rightarrow> Inl e
      | Inr (config1, calls) \<Rightarrow>
          (case merge_fields env mutate config1 rest of
             Inl e \<Rightarrow> Inl e
           | Inr (config2, calls') \<Rightarrow> Inr (config2, calls @ calls')))"

text \<open>
  \<^verbatim>\<open>for section in old_config.sections(): for (name, string_value) in old_config.items(section)\<close>
\<close>

definition fields_of :: "kv \<Rightarrow> (string \<times> string \<times> string) list" where
  "fields_of old_config =
     concat (map (\<lambda>(section, items). map (\<lambda>(name, string_value). (section, name, string_value)) items)
                 old_config)"

definition add_tribler_config ::
  "('a, 'f) env \<Rightarrow> 'a tribler_config \<Rightarrow> kv \<Rightarrow> exn + ('a tribler_config \<times> call list)" where
  "add_tribler_config env new_config old_config =
     merge_fields env (tribler_mutation env) new_config (fields_of old_config)"

definition add_libtribler_config ::
  "('a, 'f) env \<Rightarrow> 'a tribler_config \<Rightarrow> kv \<Rightarrow> exn + ('a tribler_config \<times> call list)" where
  "add_libtribler_config env new_config old_config =
     merge_fields env (libtribler_mutation env) new_config (fields_of old_config)"

section \<open>The state directory\<close>

text \<open>
  The state directory (the argument \<^verbatim>\<open>state_dir\<close>, or the default one when it is not
  given), as far as the converter touches it: the two legacy settings files
  and the checkpoint directory, a list of named files in the order \<^verbatim>\<open>glob\<close> yields them. The
  journal records, in order, every write, removal and \<^verbatim>\<open>logger.error\<close>.
\<close>

datatype fs_op =
    Wrote string
  | Removed string
  | LoggedError string

record 'f state_dir =
  libtribler_conf :: "'f option"
  tribler_conf :: "'f option"
  checkpoint_dir :: "(string \<times> 'f) list"
  journal :: "fs_op list"

definition ends_with :: "string \<Rightarrow> string \<Rightarrow> bool" where
  "ends_with ext name = (length ext \<le> length name \<and> drop (length name - length ext) name = ext)"

text \<open>\<^verbatim>\<open>(state_dir / STATEDIR_CHECKPOINT_DIR).glob('*' + ext)\<close>\<close>

definition glob :: "string \<Rightarrow> 'f state_dir \<Rightarrow> string list" where
  "glob ext s = filter (ends_with ext) (map fst (checkpoint_dir s))"

definition log_error :: "string \<Rightarrow> 'f state_dir \<Rightarrow> 'f state_dir" where
  "log_error name s = s\<lparr>journal := journal s @ [LoggedError name]\<rparr>"

definition write_file :: "string \<Rightarrow> 'f \<Rightarrow> 'f state_dir \<Rightarrow> 'f state_dir" where
  "write_file name content s =
     s\<lparr>checkpoint_dir := AList.update name content (checkpoint_dir s),
       journal := journal s @ [Wrote name]\<rparr>"

text \<open>\<^verbatim>\<open>os.remove\<close> raises \<^verbatim>\<open>FileNotFoundError\<close> when the file is not there.\<close>

definition os_remove :: "string \<Rightarrow> 'f state_dir \<Rightarrow> exn + 'f state_dir" where
  "os_remove name s =
     (case map_of (checkpoint_dir s) name of
        None \<Rightarrow> Inl FileNotFoundError
      | Some content \<Rightarrow>
          Inr (s\<lparr>checkpoint_dir := AList.delete name (checkpoint_dir s),
                 journal := journal s @ [Removed name]\<rparr>))"

text \<open>
  \<^verbatim>\<open>for filename in ...glob(...)\<close>: the body runs on each file in turn; an exception that
  leaves the body ends the loop, and what was done to the directory before stays done.
\<close>

fun for_each ::
  "('f state_dir \<Rightarrow> string \<Rightarrow> 'f state_dir \<times> exn option) \<Rightarrow> 'f state_dir \<Rightarrow> string list \<Rightarrow>
   'f state_dir \<times> exn option" where
  "for_each body s [] = (s, None)"
| "for_each body s (filename # rest) =
     (case body s filename of
        (s', Some e) \<Rightarrow> (s', Some e)
      | (s', None) \<Rightarrow> for_each body s' rest)"

section \<open>convert_config_to_tribler71\<close>

text \<open>Lines 33-37.\<close>

definition merge_libtribler_file ::
  "('a, 'f) env \<Rightarrow> 'a tribler_config \<Rightarrow> 'f state_dir \<Rightarrow> 'f state_dir \<times> (exn + 'a tribler_config)" where
  "merge_libtribler_file env current_config s =
     (case libtribler_conf s of
        None \<Rightarrow> (s, Inr current_config)
      | Some content \<Rightarrow>
          (case rcp_read env content of
             Inl e \<Rightarrow> (s, Inl e)
           | Inr libtribler_cfg \<Rightarrow>
               (case add_libtribler_config env current_config libtribler_cfg of
                  Inl e \<Rightarrow> (s, Inl e)
                | Inr (c, calls) \<Rightarrow>
                    (s\<lparr>libtribler_conf := None,
                       journal := journal s @ [Removed ''libtribler.conf'']\<rparr>, Inr c))))"

text \<open>Lines 40-44.\<close>

definition merge_tribler_file ::
  "('a, 'f) env \<Rightarrow> 'a tribler_config \<Rightarrow> 'f state_dir \<Rightarrow> 'f state_dir \<times> (exn + 'a tribler_config)" where
  "merge_tribler_file env current_config s =
     (case tribler_conf s of
        None \<Rightarrow> (s, Inr current_config)
      | Some content \<Rightarrow>
          (case rcp_read env content of
             Inl e \<Rightarrow> (s, Inl e)
           | Inr tribler_cfg \<Rightarrow>
               (case add_tribler_config env current_config tribler_cfg of
                  Inl e \<Rightarrow> (s, Inl e)
                | Inr (c, calls) \<Rightarrow>
                    (s\<lparr>tribler_conf := None,
                       journal := journal s @ [Removed ''tribler.conf'']\<rparr>, Inr c))))"

text \<open>
  Lines 57-67: the section \<^verbatim>\<open>downloadconfig\<close> becomes \<^verbatim>\<open>download_defaults\<close> and the file is
  written back. \<^verbatim>\<open>items\<close> raises \<^verbatim>\<open>NoSectionError\<close> and \<^verbatim>\<open>add_section\<close> raises
  \<^verbatim>\<open>DuplicateSectionError\<close>; the handler passes on both.
\<close>

definition rename_downloadconfig :: "('a, 'f) env \<Rightarrow> string \<Rightarrow> kv \<Rightarrow> 'f state_dir \<Rightarrow> 'f state_dir" where
  "rename_downloadconfig env filename download_cfg s =
     (case map_of download_cfg ''downloadconfig'' of
        None \<Rightarrow> s
      | Some download_items \<Rightarrow>
          (case map_of download_cfg ''download_defaults'' of
             Some existing \<Rightarrow> s
           | None \<Rightarrow>
               write_file filename
                 (rcp_write env
                    (AList.delete ''downloadconfig''
                       (download_cfg @
                        [(''download_defaults'',
                          foldl (\<lambda>sec (k, v). AList.update k v sec) [] download_items)])))
                 s))"

text \<open>
  Lines 49-67, the body of the loop over \<^verbatim>\<open>*.state\<close>. After
  \<^verbatim>\<open>MissingSectionHeaderError\<close> the parser is empty and the second \<^verbatim>\<open>try\<close> still runs.
\<close>

definition convert71_checkpoint ::
  "('a, 'f) env \<Rightarrow> 'f state_dir \<Rightarrow> string \<Rightarrow> 'f state_dir \<times> exn option" where
  "convert71_checkpoint env s filename =
     (case map_of (checkpoint_dir s) filename of
        None \<Rightarrow> (s, Some FileNotFoundError)
      | Some content \<Rightarrow>
          (case rcp_read env content of
             Inr download_cfg \<Rightarrow> (rename_downloadconfig env filename download_cfg s, None)
           | Inl e \<Rightarrow>
               if e = MissingSectionHeaderError then
                 (case os_remove filename (log_error filename s) of
                    Inl e' \<Rightarrow> (log_error filename s, Some e')
                  | Inr s' \<Rightarrow> (rename_downloadconfig env filename [] s', None))
               else (s, Some e)))"

definition convert_config_to_tribler71 ::
  "('a, 'f) env \<Rightarrow> 'a tribler_config \<Rightarrow> 'f state_dir \<Rightarrow> 'f state_dir \<times> (exn + 'a tribler_config)" where
  "convert_config_to_tribler71 env current_config s =
     (case merge_libtribler_file env current_config s of
        (s1, Inl e) \<Rightarrow> (s1, Inl e)
      | (s1, Inr c1) \<Rightarrow>
          (case merge_tribler_file env c1 s1 of
             (s2, Inl e) \<Rightarrow> (s2, Inl e)
           | (s2, Inr c2) \<Rightarrow>
               (case for_each (convert71_checkpoint env) s2 (glob ''.state'' s2) of
                  (s3, Some e) \<Rightarrow> (s3, Inl e)
                | (s3, None) \<Rightarrow> (s3, Inr c2))))"

section \<open>convert_config_to_tribler74\<close>

text \<open>
  Line 224-225 inside the \<^verbatim>\<open>try\<close>: \<^verbatim>\<open>value = ungarbled_dict or ast.literal_eval(value)\<close>, then
  \<^verbatim>\<open>base64.b64encode(lt.bencode(value)).decode('utf-8')\<close>.
\<close>

definition reencode :: "('a, 'f) env \<Rightarrow> string \<Rightarrow> pyval \<Rightarrow> exn + string" where
  "reencode env value ungarbled_dict =
     and_then (if truthy ungarbled_dict then Inr ungarbled_dict else literal_eval env value)
       (\<lambda>v. and_then (bencode env v) (\<lambda>encoded. Inr (b64encode env encoded)))"

text \<open>
  Lines 220-229, the body of the loop over the two options of section \<^verbatim>\<open>state\<close>. The state is
  the directory and the parser. Only the last two statements are inside the \<^verbatim>\<open>try\<close>; its
  handler removes the file and goes on with the next option.
\<close>

definition upgrade_option ::
  "('a, 'f) env \<Rightarrow> string \<Rightarrow> 'f state_dir \<times> kv \<Rightarrow> string \<times> string \<Rightarrow>
   ('f state_dir \<times> kv) \<times> exn option" where
  "upgrade_option env filename st so =
     (case (st, so) of ((s, old_config), (section, option)) \<Rightarrow>
        (case lookup_raw old_config section option of
           None \<Rightarrow> ((s, old_config), Some (ccp_missing env))
         | Some value0 \<Rightarrow>
             (case refactor_string env (value0 @ [CHR 0x0A]) (option @ ''_2to3'') of
                Inl e \<Rightarrow> ((s, old_config), Some e)
              | Inr value \<Rightarrow>
                  (case and_then (literal_eval env value) (recursive_ungarble_metainfo env) of
                     Inl e \<Rightarrow> ((s, old_config), Some e)
                   | Inr ungarbled_dict \<Rightarrow>
                       (case reencode env value ungarbled_dict of
                          Inr text \<Rightarrow>
                            ((s, AList.map_entry section (AList.update option text) old_config), None)
                        | Inl e \<Rightarrow>
                            if e = ValueError \<or> e = SyntaxError then
                              (case os_remove filename (log_error filename s) of
                                 Inl e' \<Rightarrow> ((log_error filename s, old_config), Some e')
                               | Inr s' \<Rightarrow> ((s', old_config), None))
                            else ((s, old_config), Some e))))))"

fun upgrade_options ::
  "('a, 'f) env \<Rightarrow> string \<Rightarrow> 'f state_dir \<times> kv \<Rightarrow> (string \<times> string) list \<Rightarrow>
   ('f state_dir \<times> kv) \<times> exn option" where
  "upgrade_options env filename st [] = (st, None)"
| "upgrade_options env filename st (so # rest) =
     (case upgrade_option env filename st so of
        (st', Some e) \<Rightarrow> (st', Some e)
      | (st', None) \<Rightarrow> upgrade_options env filename st' rest)"

text \<open>Lines 232-233.\<close>

definition remove_dlstate :: "kv \<Rightarrow> kv" where
  "remove_dlstate old_config =
     (case map_of old_config ''state'' of
        None \<Rightarrow> old_config
      | Some items \<Rightarrow>
          (case map_of items ''dlstate'' of
             None \<Rightarrow> old_config
           | Some v \<Rightarrow> AList.map_entry ''state'' (AList.delete ''dlstate'') old_config))"

text \<open>
  Lines 236-241: every key of every section is copied into the new tree, a section being
  created when its first key arrives.
\<close>

definition set_value :: "string \<Rightarrow> string \<Rightarrow> pyval \<Rightarrow> tree \<Rightarrow> tree" where
  "set_value section key val new_config =
     AList.update section
       (AList.update key val (case map_of new_config section of None \<Rightarrow> [] | Some items \<Rightarrow> items))
       new_config"

definition copy_sections :: "('a, 'f) env \<Rightarrow> kv \<Rightarrow> tree \<Rightarrow> tree" where
  "copy_sections env old_config new_config =
     foldl (\<lambda>nc (section, items).
              foldl (\<lambda>nc' (key, raw). set_value section key (ccp_literal env raw) nc') nc items)
           new_config old_config"

text \<open>
  Line 235: \<^verbatim>\<open>ConfigObj(infile=...)\<close> starts from the file of that name when there is one and
  from an empty tree otherwise.
\<close>

definition load_new_config :: "('a, 'f) env \<Rightarrow> 'f state_dir \<Rightarrow> string \<Rightarrow> exn + tree" where
  "load_new_config env s conf_name =
     (case map_of (checkpoint_dir s) conf_name of
        None \<Rightarrow> Inr []
      | Some content \<Rightarrow> cobj_load env content)"

text \<open>Lines 219-243, from the loop over the two options to the removal of the old file.\<close>

definition convert74_rest ::
  "('a, 'f) env \<Rightarrow> string \<Rightarrow> 'f state_dir \<times> kv \<Rightarrow> 'f state_dir \<times> exn option" where
  "convert74_rest env filename st =
     (case upgrade_options env filename st
             [(''state'', ''metainfo''), (''state'', ''engineresumedata'')] of
        ((s1, old_config), Some e) \<Rightarrow> (s1, Some e)
      | ((s1, old_config), None) \<Rightarrow>
          (let conf_name = take (length filename - 6) filename @ ''.conf'' in
           case load_new_config env s1 conf_name of
             Inl e \<Rightarrow> (s1, Some e)
           | Inr new_config \<Rightarrow>
               (let s2 = write_file conf_name
                           (cobj_write env (copy_sections env (remove_dlstate old_config) new_config))
                           s1
                in case os_remove filename s2 of
                     Inl e \<Rightarrow> (s2, Some e)
                   | Inr s3 \<Rightarrow> (s3, None))))"

text \<open>
  Lines 211-243, the body of the loop over \<^verbatim>\<open>*.state\<close>. The handler of
  \<^verbatim>\<open>MissingSectionHeaderError\<close> removes the file and falls through to line 219 with the empty
  parser.
\<close>

definition convert74_file ::
  "('a, 'f) env \<Rightarrow> 'f state_dir \<Rightarrow> string \<Rightarrow> 'f state_dir \<times> exn option" where
  "convert74_file env s filename =
     (case map_of (checkpoint_dir s) filename of
        None \<Rightarrow> (s, Some FileNotFoundError)
      | Some content \<Rightarrow>
          (case ccp_read env content of
             Inr old_config \<Rightarrow> convert74_rest env filename (s, old_config)
           | Inl e \<Rightarrow>
               if e = MissingSectionHeaderError then
                 (case os_remove filename (log_error filename s) of
                    Inl e' \<Rightarrow> (log_error filename s, Some e')
                  | Inr s' \<Rightarrow> convert74_rest env filename (s', []))
               else (s, Some e)))"

definition convert_config_to_tribler74 :: "('a, 'f) env \<Rightarrow> 'f state_dir \<Rightarrow> 'f state_dir \<times> exn option" where
  "convert_config_to_tribler74 env s = for_each (convert74_file env) s (glob ''.state'' s)"

section \<open>convert_config_to_tribler75\<close>

text \<open>What a \<^verbatim>\<open>for\<close> loop over a value runs through; a value that is not iterable raises.\<close>

definition py_iter :: "pyval \<Rightarrow> exn + pyval list" where
  "py_iter v =
     (case v of
        PList xs \<Rightarrow> Inr xs
      | PTuple xs \<Rightarrow> Inr xs
      | PStr s \<Rightarrow> Inr (map (\<lambda>c. PStr [c]) s)
      | PBytes s \<Rightarrow> Inr (map (\<lambda>c. PInt (of_char c)) s)
      | PDict kvs \<Rightarrow> Inr (map fst kvs)
      | _ \<Rightarrow> Inl TypeError)"

fun index_of :: "'a \<Rightarrow> 'a list \<Rightarrow> nat option" where
  "index_of x [] = None"
| "index_of x (y # ys) = (if x = y then Some 0 else map_option Suc (index_of x ys))"

text \<open>
  Modelled from the spec: \<^verbatim>\<open>TorrentDef.get_index_of_file_in_files\<close> is not under src/. Sections
  4.5 and 6 of the spec: given a path, its index in the ordered file table of the torrent, an
  exact match being required. A value that matches no path of the table has no index: the
  lookup raises.
\<close>

definition get_index_of_file_in_files :: "string list \<Rightarrow> pyval \<Rightarrow> exn + pyval" where
  "get_index_of_file_in_files files fn =
     (case fn of
        PStr path \<Rightarrow>
          (case index_of path files of
             Some i \<Rightarrow> Inr (PInt (int i))
           | None \<Rightarrow> Inl ValueError)
      | _ \<Rightarrow> Inl ValueError)"

text \<open>The list comprehension of lines 257-258: the first lookup that raises ends it.\<close>

fun resolve_all :: "string list \<Rightarrow> pyval list \<Rightarrow> exn + pyval list" where
  "resolve_all files [] = Inr []"
| "resolve_all files (fn # fns) =
     (case get_index_of_file_in_files files fn of
        Inl e \<Rightarrow> Inl e
      | Inr i \<Rightarrow>
          (case resolve_all files fns of
             Inl e \<Rightarrow> Inl e
           | Inr is \<Rightarrow> Inr (i # is)))"

text \<open>
  \<^verbatim>\<open>config.config['download_defaults'].pop('selected_files')\<close> on the loaded record.
\<close>

definition pop_selected_files :: "tree \<Rightarrow> tree" where
  "pop_selected_files cfg = AList.map_entry ''download_defaults'' (AList.delete ''selected_files'') cfg"

text \<open>Lines 252-259, the body of the loop over \<^verbatim>\<open>*.conf\<close>.\<close>

definition convert75_file ::
  "('a, 'f) env \<Rightarrow> 'f state_dir \<Rightarrow> string \<Rightarrow> 'f state_dir \<times> exn option" where
  "convert75_file env s filename =
     (case map_of (checkpoint_dir s) filename of
        None \<Rightarrow> (s, Some FileNotFoundError)
      | Some content \<Rightarrow>
          (case dlc_load env content of
             Inl e \<Rightarrow> (s, Some e)
           | Inr cfg \<Rightarrow>
               (case get_metainfo env cfg of
                  Inl e \<Rightarrow> (s, Some e)
                | Inr metainfo \<Rightarrow>
                    (case map_of cfg ''download_defaults'' of
                       None \<Rightarrow> (s, Some KeyError)
                     | Some defaults \<Rightarrow>
                         (let selected = (case map_of defaults ''selected_files'' of
                                            None \<Rightarrow> PNone
                                          | Some v \<Rightarrow> v)
                          in if \<not> truthy selected \<or> \<not> truthy metainfo then (s, None)
                             else
                               (case torrent_files env metainfo of
                                  Inl e \<Rightarrow> (s, Some e)
                                | Inr files \<Rightarrow>
                                    (case and_then (py_iter selected) (resolve_all files) of
                                       Inl e \<Rightarrow> (s, Some e)
                                     | Inr indexes \<Rightarrow>
                                         (write_file filename
                                            (dlc_write env
                                               (set_selected_files env indexes
                                                  (pop_selected_files cfg)))
                                            s, None))))))))"

definition convert_config_to_tribler75 :: "('a, 'f) env \<Rightarrow> 'f state_dir \<Rightarrow> 'f state_dir \<times> exn option" where
  "convert_config_to_tribler75 env s = for_each (convert75_file env) s (glob ''.conf'' s)"

text \<open>
  The three stages in the order the upgrader runs them; the settings come from the first stage,
  and an exception that leaves a stage ends the run.
\<close>

definition full_pipeline ::
  "('a, 'f) env \<Rightarrow> 'a tribler_config \<Rightarrow> 'f state_dir \<Rightarrow> 'f state_dir \<times> (exn + 'a tribler_config)" where
  "full_pipeline env current_config s =
     (case convert_config_to_tribler71 env current_config s of
        (s1, Inl e) \<Rightarrow> (s1, Inl e)
      | (s1, Inr c) \<Rightarrow>
          (case convert_config_to_tribler74 env s1 of
             (s2, Some e) \<Rightarrow> (s2, Inl e)
           | (s2, None) \<Rightarrow>
               (case convert_config_to_tribler75 env s2 of
                  (s3, Some e) \<Rightarrow> (s3, Inl e)
                | (s3, None) \<Rightarrow> (s3, Inr c))))"

section \<open>A concrete instance\<close>

text \<open>
  One behaviour of the collaborators, small enough to evaluate, on which the hypotheses of the
  theorems are met and the converter is run. A file is a text without section header, a legacy
  key-value file or a structured file.
\<close>

datatype example_file =
    NoHeader
  | Legacy kv
  | Structured tree

definition strip_newlines :: "string \<Rightarrow> string" where
  "strip_newlines s = rev (dropWhile (\<lambda>c. c = CHR 0x0A) (rev s))"

text \<open>\<^verbatim>\<open>ast.literal_eval\<close> on the handful of texts the examples use.\<close>

definition example_literal_eval :: "string \<Rightarrow> exn + pyval" where
  "example_literal_eval text =
     (let s = strip_newlines text in
      if s = ''True'' then Inr (PBool True)
      else if s = ''2'' then Inr (PInt 2)
      else if s = ''-1'' then Inr (PInt (- 1))
      else if s = ''{}'' then Inr (PDict [])
      else if s = ''[1]'' then Inr (PList [PInt 1])
      else if s = ''{'a': 1}'' then Inr (PDict [(PStr ''a'', PInt 1)])
      else if s = ''{'b': None}'' then Inr (PDict [(PStr ''b'', PNone)])
      else if s = ''('127.0.0.1',)'' then Inr (PTuple [PStr ''127.0.0.1''])
      else if s = ''('127.0.0.1', [1])'' then Inr (PTuple [PStr ''127.0.0.1'', PList [PInt 1]])
      else if s = ''{'a': [1'' then Inl SyntaxError
      else Inl ValueError)"

text \<open>A setter records its call; the rule of validation: ports and hop counts are not negative.\<close>

definition example_setter ::
  "setter \<Rightarrow> pyval \<Rightarrow> (setter \<times> pyval) list tribler_config \<Rightarrow>
   exn + (setter \<times> pyval) list tribler_config" where
  "example_setter s v c = Inr (c\<lparr>attrs := (s, v) # attrs c\<rparr>)"

definition example_validate :: "(setter \<times> pyval) list tribler_config \<Rightarrow> bool" where
  "example_validate c =
     list_all (\<lambda>(s, v). if s = Set_http_api_port \<or> s = Set_default_number_hops
                          then (case v of PInt p \<Rightarrow> 0 \<le> p | _ \<Rightarrow> False)
                          else True)
              (attrs c)"

definition example_read :: "example_file \<Rightarrow> exn + kv" where
  "example_read content =
     (case content of
        NoHeader \<Rightarrow> Inl MissingSectionHeaderError
      | Legacy sections \<Rightarrow> Inr sections
      | Structured t \<Rightarrow> Inl (OtherError ''ParsingError''))"

definition example_load :: "example_file \<Rightarrow> exn + tree" where
  "example_load content =
     (case content of
        NoHeader \<Rightarrow> Inl (OtherError ''ParseError'')
      | Legacy sections \<Rightarrow> Inl (OtherError ''ParseError'')
      | Structured t \<Rightarrow> Inr t)"

definition example_decode :: "string \<Rightarrow> pyval" where
  "example_decode raw = (case example_literal_eval raw of Inr v \<Rightarrow> v | Inl e \<Rightarrow> PStr raw)"

text \<open>The codec accepts dictionaries of integers only; any other value is a \<^verbatim>\<open>ValueError\<close>.\<close>

definition example_bencode :: "pyval \<Rightarrow> exn + string" where
  "example_bencode v =
     (if v = PDict [] then Inr ''de''
      else if v = PDict [(PStr ''a'', PInt 1)] then Inr ''d1:ai1ee''
      else Inl ValueError)"

definition example_b64encode :: "string \<Rightarrow> string" where
  "example_b64encode s =
     (if s = ''de'' then ''ZGU=''
      else if s = ''d1:ai1ee'' then ''ZDE6YWkxZWU=''
      else [])"

text \<open>
  The metainfo of a structured checkpoint is its entry \<^verbatim>\<open>metainfo\<close> in section \<^verbatim>\<open>state\<close>,
  here the list of the torrent's paths itself.
\<close>

definition example_metainfo :: "tree \<Rightarrow> exn + pyval" where
  "example_metainfo cfg =
     (case map_of cfg ''state'' of
        None \<Rightarrow> Inr PNone
      | Some items \<Rightarrow> (case map_of items ''metainfo'' of None \<Rightarrow> Inr PNone | Some v \<Rightarrow> Inr v))"

fun example_paths :: "pyval list \<Rightarrow> string list" where
  "example_paths [] = []"
| "example_paths (PStr p # vs) = p # example_paths vs"
| "example_paths (v # vs) = example_paths vs"

definition example_torrent_files :: "pyval \<Rightarrow> exn + string list" where
  "example_torrent_files metainfo =
     (case metainfo of PList vs \<Rightarrow> Inr (example_paths vs) | _ \<Rightarrow> Inl ValueError)"

text \<open>The repair pass gives nothing for the empty dictionary and the value itself otherwise.\<close>

definition example_ungarble :: "pyval \<Rightarrow> exn + pyval" where
  "example_ungarble v = (if v = PDict [] then Inr PNone else Inr v)"

definition example_env :: "((setter \<times> pyval) list, example_file) env" where
  "example_env =
     \<lparr>literal_eval = example_literal_eval,
      py_str = (\<lambda>v. case v of PStr s \<Rightarrow> s | PInt i \<Rightarrow> (if i = 1 then ''1'' else ''?'') | _ \<Rightarrow> ''?''),
      call_setter = example_setter,
      validate = example_validate,
      rcp_read = example_read,
      rcp_write = Legacy,
      ccp_read = example_read,
      ccp_literal = example_decode,
      ccp_missing = TypeError,
      refactor_string = (\<lambda>text name. Inr text),
      recursive_ungarble_metainfo = example_ungarble,
      bencode = example_bencode,
      b64encode = example_b64encode,
      cobj_load = example_load,
      cobj_write = Structured,
      dlc_load = example_load,
      dlc_write = Structured,
      get_metainfo = example_metainfo,
      set_selected_files = (\<lambda>indexes. set_value ''download_defaults'' ''selected_file_indexes''
                                          (PList indexes)),
      torrent_files = example_torrent_files\<rparr>"

definition example_config :: "(setter \<times> pyval) list tribler_config" where
  "example_config =
     \<lparr>config = [(''download_defaults'', [(''saveas'', PNone)]), (''libtorrent'', [])], attrs = []\<rparr>"

text \<open>The same collaborators with a validation that rejects every candidate.\<close>

definition rejecting_env :: "((setter \<times> pyval) list, example_file) env" where
  "rejecting_env = example_env\<lparr>validate := (\<lambda>c. False)\<rparr>"

text \<open>A state directory that holds the two legacy settings files and no checkpoint.\<close>

definition example_legacy_dir :: "example_file state_dir" where
  "example_legacy_dir =
     \<lparr>libtribler_conf = Some (Legacy [(''libtorrent'', [(''lt_proxytype'', ''2'')])]),
      tribler_conf = Some (Legacy [(''Tribler'', [(''default_number_hops'', ''2'')])]),
      checkpoint_dir = [],
      journal = []\<rparr>"

text \<open>
  A legacy checkpoint that upgrades, and a checkpoint directory with one file first and that
  checkpoint after it.
\<close>

definition example_good_state :: kv where
  "example_good_state =
     [(''state'', [(''metainfo'', ''{'a': 1}''), (''engineresumedata'', ''{}''), (''dlstate'', ''2'')]),
      (''download_defaults'', [(''hops'', ''2'')])]"

definition example_checkpoints :: "example_file \<Rightarrow> example_file state_dir" where
  "example_checkpoints first =
     \<lparr>libtribler_conf = None,
      tribler_conf = None,
      checkpoint_dir = [(''a.state'', first), (''b.state'', Legacy example_good_state)],
      journal = []\<rparr>"

text \<open>
  Structured checkpoints: one of a torrent with three files of which two are selected by path,
  one that selects nothing, and one whose \<^verbatim>\<open>selected_files\<close> holds indices already. A
  checkpoint directory of structured files only.
\<close>

definition example_selected_conf :: tree where
  "example_selected_conf =
     [(''download_defaults'',
       [(''selected_files'', PList [PStr ''a.txt'', PStr ''c.txt'']), (''hops'', PInt 1)]),
      (''state'', [(''metainfo'', PList [PStr ''a.txt'', PStr ''b.txt'', PStr ''c.txt''])])]"

definition example_plain_conf :: tree where
  "example_plain_conf =
     [(''download_defaults'', [(''hops'', PInt 1)]),
      (''state'', [(''metainfo'', PList [PStr ''a.txt'', PStr ''b.txt'', PStr ''c.txt''])])]"

definition example_indexed_conf :: tree where
  "example_indexed_conf =
     [(''download_defaults'', [(''selected_files'', PList [PInt 0, PInt 2]), (''hops'', PInt 1)]),
      (''state'', [(''metainfo'', PList [PStr ''a.txt'', PStr ''b.txt'', PStr ''c.txt''])])]"

definition example_conf_dir :: "(string \<times> tree) list \<Rightarrow> example_file state_dir" where
  "example_conf_dir files =
     \<lparr>libtribler_conf = None,
      tribler_conf = None,
      checkpoint_dir = map (\<lambda>(name, t). (name, Structured t)) files,
      journal = []\<rparr>"

definition example_migrated_conf :: tree where
  "example_migrated_conf =
     [(''download_defaults'',
       [(''hops'', PInt 1), (''selected_file_indexes'', PList [PInt 0, PInt 2])]),
      (''state'', [(''metainfo'', PList [PStr ''a.txt'', PStr ''b.txt'', PStr ''c.txt''])])]"

section \<open>Properties of the merge\<close>

lemma merge_field_None:
  "merge_field env mutate c (section, name, ''None'') = Inr (c, [])"
  by (simp add: merge_field_def)

lemma merge_fields_append:
  "merge_fields env mutate c (xs @ ys) =
     (case merge_fields env mutate c xs of
        Inl e \<Rightarrow> Inl e
      | Inr (c1, calls1) \<Rightarrow>
          (case merge_fields env mutate c1 ys of
             Inl e \<Rightarrow> Inl e
           | Inr (c2, calls2) \<Rightarrow> Inr (c2, calls1 @ calls2)))"
  by (induction xs arbitrary: c) (auto split: sum.splits prod.splits)

lemma merge_fields_skip_None:
  "merge_fields env mutate c (filter (\<lambda>(s, n, v). v \<noteq> ''None'') fs) = merge_fields env mutate c fs"
proof (induction fs arbitrary: c)
  case Nil
  show ?case by simp
next
  case (Cons f fs)
  obtain s n v where f: "f = (s, n, v)" by (cases f)
  show ?case
  proof (cases "v = ''None''")
    case True
    have "merge_field env mutate c (s, n, v) = Inr (c, [])"
      using True by (simp add: merge_field_None)
    then show ?thesis using Cons.IH [of c] True f by (simp split: sum.splits prod.splits)
  next
    case False
    then show ?thesis using Cons.IH f by (simp split: sum.splits prod.splits)
  qed
qed

lemma fields_of_filter:
  "fields_of (map (\<lambda>(sec, items). (sec, filter (\<lambda>(n, v). v \<noteq> ''None'') items)) old) =
   filter (\<lambda>(s, n, v). v \<noteq> ''None'') (fields_of old)"
  unfolding fields_of_def
  by (induction old) (auto simp: filter_map comp_def case_prod_beta filter_concat)

lemma merge_field_result:
  "merge_field env mutate c f = Inr (c', calls) \<Longrightarrow> c' = c \<or> validate env c'"
  by (auto simp: merge_field_def split: prod.splits if_splits sum.splits)

lemma merge_fields_result:
  "merge_fields env mutate c fs = Inr (c', calls) \<Longrightarrow> c' = c \<or> validate env c'"
proof (induction fs arbitrary: c calls)
  case Nil
  then show ?case by simp
next
  case (Cons f fs)
  then show ?case
    by (auto split: sum.splits prod.splits dest!: merge_field_result)
qed

lemma merge_field_rejected:
  assumes "string_value \<noteq> ''None''"
    and "decode_value env string_value = Inr value"
    and "mutate section name value baseline = Inr temp_config"
    and "\<not> validate env temp_config"
  shows "merge_field env mutate baseline (section, name, string_value) =
           Inr (baseline, [LiteralEval string_value, Dispatch section name value, Validate, LogDebug])"
  using assms by (simp add: merge_field_def)




text \<open>A direct write stores the value under its key and leaves every other key alone.\<close>

lemma set_item_setting:
  "set_item section key value c = Inr c' \<Longrightarrow>
   setting c' section' key' =
     (if section' = section \<and> key' = key then Some value else setting c section' key')"
  by (auto simp: set_item_def setting_def update_conv' split: option.splits if_splits)

section \<open>Claims about the merge\<close>

text \<open>
  C5: a legacy field whose raw value is the string \<open>None\<close> is skipped by both merge functions
  before anything is done with it: the body makes no call at all (no decoding, no walk through
  the chain of comparisons, no validation) and the baseline stays as it is; the whole merge
  returns the settings and makes the calls it would on the file without these fields.
\<close>

theorem none_value_is_skipped:
  "merge_field env (tribler_mutation env) c (section, name, ''None'') = Inr (c, [])
   \<and> merge_field env (libtribler_mutation env) c (section, name, ''None'') = Inr (c, [])
   \<and> add_tribler_config env c old =
       add_tribler_config env c
         (map (\<lambda>(sec, items). (sec, filter (\<lambda>(n, v). v \<noteq> ''None'') items)) old)
   \<and> add_libtribler_config env c old =
       add_libtribler_config env c
         (map (\<lambda>(sec, items). (sec, filter (\<lambda>(n, v). v \<noteq> ''None'') items)) old)"
  by (simp add: merge_field_None add_tribler_config_def add_libtribler_config_def
        fields_of_filter merge_fields_skip_None)

text \<open>
  C3: when the candidate built for a field fails validation, the body of either merge function
  returns the baseline it started from and logs; the merge goes on from exactly that baseline;
  and the settings a merge returns are the ones it was given or have passed validation.
\<close>

theorem rejected_field_keeps_baseline:
  assumes "(mutate, add) = (tribler_mutation env, add_tribler_config env)
           \<or> (mutate, add) = (libtribler_mutation env, add_libtribler_config env)"
    and "fields_of old_config = before @ (sec, name, raw) # after"
    and "merge_fields env mutate new_config before = Inr (baseline, calls)"
    and "raw \<noteq> ''None''"
    and "decode_value env raw = Inr val"
    and "mutate sec name val baseline = Inr temp_config"
    and "\<not> validate env temp_config"
  shows "merge_field env mutate baseline (sec, name, raw) =
           Inr (baseline, [LiteralEval raw, Dispatch sec name val, Validate, LogDebug])
         \<and> add new_config old_config =
             (case merge_fields env mutate baseline after of
                Inl e \<Rightarrow> Inl e
              | Inr (c, calls') \<Rightarrow>
                  Inr (c, calls @ [LiteralEval raw, Dispatch sec name val,
                                   Validate, LogDebug] @ calls'))
         \<and> (\<forall>c calls'. add new_config old_config = Inr (c, calls') \<longrightarrow>
                c = new_config \<or> validate env c)"
proof -
  have add: "add new_config old_config = merge_fields env mutate new_config (fields_of old_config)"
    using assms(1) by (auto simp: add_tribler_config_def add_libtribler_config_def)
  have step: "merge_field env mutate baseline (sec, name, raw) =
                Inr (baseline, [LiteralEval raw, Dispatch sec name val, Validate, LogDebug])"
    using assms(4-7) by (rule merge_field_rejected)
  have rest: "add new_config old_config =
             (case merge_fields env mutate baseline after of
                Inl e \<Rightarrow> Inl e
              | Inr (c, calls') \<Rightarrow>
                  Inr (c, calls @ [LiteralEval raw, Dispatch sec name val,
                                   Validate, LogDebug] @ calls'))"
    unfolding add assms(2) merge_fields_append
    using assms(3) step by (simp split: sum.splits prod.splits)
  have valid: "\<forall>c calls'. add new_config old_config = Inr (c, calls') \<longrightarrow>
                c = new_config \<or> validate env c"
    unfolding add using merge_fields_result by blast
  from step rest valid show ?thesis by blast
qed

theorem rejected_field_keeps_baseline_witness:
  "add_libtribler_config example_env example_config
     [(''libtorrent'', [(''lt_proxytype'', ''2'')]), (''http_api'', [(''port'', ''-1'')]),
      (''libtorrent'', [(''utp'', ''True'')])] =
     Inr (\<lparr>config = [(''download_defaults'', [(''saveas'', PNone)]),
                     (''libtorrent'', [(''proxy_type'', PInt 2)])],
           attrs = [(Set_libtorrent_utp, PBool True)]\<rparr>,
          [LiteralEval ''2'', Dispatch ''libtorrent'' ''lt_proxytype'' (PInt 2), Validate,
           LiteralEval ''-1'', Dispatch ''http_api'' ''port'' (PInt (- 1)), Validate, LogDebug,
           LiteralEval ''True'', Dispatch ''libtorrent'' ''utp'' (PBool True), Validate])
   \<and> add_tribler_config example_env example_config
       [(''Tribler'', [(''default_number_hops'', ''-1'')])] =
       Inr (example_config,
            [LiteralEval ''-1'', Dispatch ''Tribler'' ''default_number_hops'' (PInt (- 1)),
             Validate, LogDebug])"
proof -
  let ?b = "\<lparr>config = [(''download_defaults'', [(''saveas'', PNone)]),
                       (''libtorrent'', [(''proxy_type'', PInt 2)])],
             attrs = ([] :: (setter \<times> pyval) list)\<rparr>"
  have lit: "decode_value example_env ''-1'' = Inr (PInt (- 1))"
    by (simp add: decode_value_def example_env_def example_literal_eval_def strip_newlines_def)
  have pre: "merge_fields example_env (libtribler_mutation example_env) example_config
               [(''libtorrent'', ''lt_proxytype'', ''2'')] =
             Inr (?b, [LiteralEval ''2'', Dispatch ''libtorrent'' ''lt_proxytype'' (PInt 2), Validate])"
    by (simp add: merge_field_def decode_value_def example_env_def example_literal_eval_def
          strip_newlines_def libtribler_mutation_def set_item_def example_config_def
          example_validate_def)
  have mut: "libtribler_mutation example_env ''http_api'' ''port'' (PInt (- 1)) ?b =
             Inr (?b\<lparr>attrs := [(Set_http_api_port, PInt (- 1))]\<rparr>)"
    by (simp add: libtribler_mutation_def example_env_def example_setter_def)
  have inv: "\<not> validate example_env (?b\<lparr>attrs := [(Set_http_api_port, PInt (- 1))]\<rparr>)"
    by (simp add: example_env_def example_validate_def)
  have post: "merge_fields example_env (libtribler_mutation example_env) ?b
                [(''libtorrent'', ''utp'', ''True'')] =
              Inr (?b\<lparr>attrs := [(Set_libtorrent_utp, PBool True)]\<rparr>,
                   [LiteralEval ''True'', Dispatch ''libtorrent'' ''utp'' (PBool True), Validate])"
    by (simp add: merge_field_def decode_value_def example_env_def example_literal_eval_def
          strip_newlines_def libtribler_mutation_def example_setter_def example_validate_def)
  have w1: "(libtribler_mutation example_env, add_libtribler_config example_env) =
               (tribler_mutation example_env, add_tribler_config example_env)
             \<or> (libtribler_mutation example_env, add_libtribler_config example_env) =
                 (libtribler_mutation example_env, add_libtribler_config example_env)"
    by simp
  have nn: "''-1'' \<noteq> ''None''"
    by simp
  have fo1: "fields_of [(''libtorrent'', [(''lt_proxytype'', ''2'')]),
                        (''http_api'', [(''port'', ''-1'')]),
                        (''libtorrent'', [(''utp'', ''True'')])] =
             [(''libtorrent'', ''lt_proxytype'', ''2'')] @ (''http_api'', ''port'', ''-1'') #
             [(''libtorrent'', ''utp'', ''True'')]"
    by (simp add: fields_of_def)
  have one: "add_libtribler_config example_env example_config
     [(''libtorrent'', [(''lt_proxytype'', ''2'')]), (''http_api'', [(''port'', ''-1'')]),
      (''libtorrent'', [(''utp'', ''True'')])] =
     Inr (?b\<lparr>attrs := [(Set_libtorrent_utp, PBool True)]\<rparr>,
          [LiteralEval ''2'', Dispatch ''libtorrent'' ''lt_proxytype'' (PInt 2), Validate,
           LiteralEval ''-1'', Dispatch ''http_api'' ''port'' (PInt (- 1)), Validate, LogDebug,
           LiteralEval ''True'', Dispatch ''libtorrent'' ''utp'' (PBool True), Validate])"
    using rejected_field_keeps_baseline [OF w1 fo1 pre nn lit mut inv, THEN conjunct2, THEN conjunct1]
    by (simp only: post) simp
  have mut2: "tribler_mutation example_env ''Tribler'' ''default_number_hops'' (PInt (- 1))
                example_config =
              Inr (example_config\<lparr>attrs := [(Set_default_number_hops, PInt (- 1))]\<rparr>)"
    by (simp add: tribler_mutation_def and_then_def when_do_def example_env_def
          example_setter_def example_config_def)
  have inv2: "\<not> validate example_env
                 (example_config\<lparr>attrs := [(Set_default_number_hops, PInt (- 1))]\<rparr>)"
    by (simp add: example_env_def example_validate_def)
  have w2: "(tribler_mutation example_env, add_tribler_config example_env) =
               (tribler_mutation example_env, add_tribler_config example_env)
             \<or> (tribler_mutation example_env, add_tribler_config example_env) =
                 (libtribler_mutation example_env, add_libtribler_config example_env)"
    by simp
  have fo2: "fields_of [(''Tribler'', [(''default_number_hops'', ''-1'')])] =
             [] @ (''Tribler'', ''default_number_hops'', ''-1'') # []"
    by (simp add: fields_of_def)
  have pre2: "merge_fields example_env (tribler_mutation example_env) example_config [] =
              Inr (example_config, [])"
    by simp
  have two: "add_tribler_config example_env example_config
       [(''Tribler'', [(''default_number_hops'', ''-1'')])] =
       Inr (example_config,
            [LiteralEval ''-1'', Dispatch ''Tribler'' ''default_number_hops'' (PInt (- 1)),
             Validate, LogDebug])"
    using rejected_field_keeps_baseline [OF w2 fo2 pre2 nn lit mut2 inv2, THEN conjunct2, THEN conjunct1]
    by simp
  from one two show ?thesis by simp
qed

lemma set_item_stores:
  "set_item section key value c = Inr c' \<Longrightarrow> setting c' section key = Some value"
  by (simp add: set_item_setting)

lemma direct_writes_store_value:
  assumes "(sec, name, key) \<in> {(''libtorrent'', ''lt_proxytype'', ''proxy_type''),
                                (''libtorrent'', ''lt_proxyserver'', ''proxy_server''),
                                (''libtorrent'', ''lt_proxyauth'', ''proxy_auth''),
                                (''libtorrent'', ''anon_proxytype'', ''anon_proxy_type''),
                                (''libtorrent'', ''anon_proxyauth'', ''anon_proxy_auth'')}"
    and "libtribler_mutation env sec name val c = Inr c'"
  shows "setting c' ''libtorrent'' key = Some val"
  using assms by (auto simp: libtribler_mutation_def intro: set_item_stores)



text \<open>
  What the two guards of \<^verbatim>\<open>add_libtribler_config\<close> do achieve: a value that is no list leaves
  the candidate as it is in the branch of \<^verbatim>\<open>socks5_listen_ports\<close>, and so does, in the branch of
  \<^verbatim>\<open>anon_proxyserver\<close>, a value that is no tuple or a tuple of two or more elements whose second
  is no list.
\<close>

lemma guarded_shapes_leave_candidate:
  "(\<forall>ports. val \<noteq> PList ports) \<Longrightarrow> set_socks5_listen_ports env val c = Inr c"
  "(\<forall>xs. val \<noteq> PTuple xs) \<Longrightarrow> set_anon_proxyserver env val c = Inr c"
  "2 \<le> length xs \<Longrightarrow> (\<forall>ports. xs ! 1 \<noteq> PList ports) \<Longrightarrow>
     set_anon_proxyserver env (PTuple xs) c = Inr c"
  by (auto simp: set_socks5_listen_ports_def set_anon_proxyserver_def split: pyval.splits)

text \<open>
  C10: the guard of the branch for \<^verbatim>\<open>anon_proxyserver\<close> indexes the tuple before it knows that
  there is a second element. For the empty tuple and for a tuple of one element the branch
  raises \<^verbatim>\<open>IndexError\<close>; nothing in \<^verbatim>\<open>add_libtribler_config\<close> catches it, so the merge returns
  no settings at all, also not the ones merged from the fields before.
\<close>

theorem short_tuple_raises_index_error:
  "set_anon_proxyserver env (PTuple []) c = Inl IndexError
   \<and> set_anon_proxyserver env (PTuple [x]) c = Inl IndexError
   \<and> add_libtribler_config example_env example_config
       [(''libtorrent'', [(''lt_proxytype'', ''2''), (''anon_proxyserver'', ''('127.0.0.1',)'')])] =
       Inl IndexError"
  by (simp add: set_anon_proxyserver_def add_libtribler_config_def fields_of_def merge_field_def
        decode_value_def example_env_def example_literal_eval_def strip_newlines_def
        libtribler_mutation_def set_item_def example_config_def example_validate_def)

section \<open>Claims about convert_config_to_tribler71\<close>

lemma for_each_frame:
  assumes "\<And>s n. R s (fst (body s n))"
    and "\<And>s. R s s"
    and "\<And>a b c. R a b \<Longrightarrow> R b c \<Longrightarrow> R a c"
  shows "R s (fst (for_each body s names))"
proof (induction names arbitrary: s)
  case Nil
  show ?case by (simp add: assms(2))
next
  case (Cons n names)
  obtain s' r where b: "body s n = (s', r)" by (cases "body s n")
  have step: "R s s'" using assms(1) [of s n] b by simp
  show ?case
  proof (cases r)
    case None
    then show ?thesis using b step Cons.IH [of s'] assms(3) by auto
  next
    case (Some e)
    then show ?thesis using b step by simp
  qed
qed

lemma convert71_checkpoint_frame:
  "libtribler_conf (fst (convert71_checkpoint env s n)) = libtribler_conf s
   \<and> tribler_conf (fst (convert71_checkpoint env s n)) = tribler_conf s
   \<and> (\<exists>ops. journal (fst (convert71_checkpoint env s n)) = journal s @ ops)"
  by (auto simp: convert71_checkpoint_def rename_downloadconfig_def os_remove_def log_error_def
        write_file_def split: option.splits sum.splits)

lemma convert71_loop_frame:
  "libtribler_conf (fst (for_each (convert71_checkpoint env) s names)) = libtribler_conf s
   \<and> tribler_conf (fst (for_each (convert71_checkpoint env) s names)) = tribler_conf s
   \<and> (\<exists>ops. journal (fst (for_each (convert71_checkpoint env) s names)) = journal s @ ops)"
  by (rule for_each_frame
        [where R = "\<lambda>a b. libtribler_conf b = libtribler_conf a \<and> tribler_conf b = tribler_conf a
                           \<and> (\<exists>ops. journal b = journal a @ ops)"])
     (use convert71_checkpoint_frame in auto)

lemma merge_tribler_file_frame:
  "libtribler_conf (fst (merge_tribler_file env c s)) = libtribler_conf s
   \<and> (\<exists>ops. journal (fst (merge_tribler_file env c s)) = journal s @ ops)"
  by (auto simp: merge_tribler_file_def split: option.splits sum.splits)

lemma convert71_after_first_stage:
  assumes "merge_libtribler_file env current_config s = (s1, Inr c1)"
  shows "libtribler_conf (fst (convert_config_to_tribler71 env current_config s)) = libtribler_conf s1
         \<and> (\<exists>ops. journal (fst (convert_config_to_tribler71 env current_config s)) = journal s1 @ ops)"
proof -
  obtain s2 r2 where m: "merge_tribler_file env c1 s1 = (s2, r2)"
    by (cases "merge_tribler_file env c1 s1")
  have f2: "libtribler_conf s2 = libtribler_conf s1 \<and> (\<exists>ops. journal s2 = journal s1 @ ops)"
    using merge_tribler_file_frame [of env c1 s1] m by simp
  show ?thesis
  proof (cases r2)
    case (Inl e)
    then show ?thesis
      using assms m f2 by (simp add: convert_config_to_tribler71_def)
  next
    case (Inr c2)
    obtain s3 r3 where l: "for_each (convert71_checkpoint env) s2 (glob ''.state'' s2) = (s3, r3)"
      by (cases "for_each (convert71_checkpoint env) s2 (glob ''.state'' s2)")
    have f3: "libtribler_conf s3 = libtribler_conf s2 \<and> (\<exists>ops. journal s3 = journal s2 @ ops)"
      using convert71_loop_frame [of env s2 "glob ''.state'' s2"] l by simp
    have fst3: "fst (convert_config_to_tribler71 env current_config s) = s3"
      using assms m Inr l by (simp add: convert_config_to_tribler71_def split: option.splits)
    show ?thesis
      using f2 f3 fst3 by auto
  qed
qed

lemma convert71_after_second_stage:
  assumes "merge_libtribler_file env current_config s = (s1, Inr c1)"
    and "merge_tribler_file env c1 s1 = (s2, Inr c2)"
  shows "tribler_conf (fst (convert_config_to_tribler71 env current_config s)) = tribler_conf s2
         \<and> (\<exists>ops. journal (fst (convert_config_to_tribler71 env current_config s)) = journal s2 @ ops)"
proof -
  obtain s3 r3 where l: "for_each (convert71_checkpoint env) s2 (glob ''.state'' s2) = (s3, r3)"
    by (cases "for_each (convert71_checkpoint env) s2 (glob ''.state'' s2)")
  have f3: "tribler_conf s3 = tribler_conf s2 \<and> (\<exists>ops. journal s3 = journal s2 @ ops)"
    using convert71_loop_frame [of env s2 "glob ''.state'' s2"] l by simp
  have fst3: "fst (convert_config_to_tribler71 env current_config s) = s3"
    using assms l by (simp add: convert_config_to_tribler71_def split: option.splits)
  show ?thesis
    using f3 fst3 by auto
qed

text \<open>
  C6: when \<^verbatim>\<open>libtribler.conf\<close> exists, is read and its merge returns, the file is gone after
  \<^verbatim>\<open>convert_config_to_tribler71\<close> and its removal is the first thing done to the state
  directory; the same holds of \<^verbatim>\<open>tribler.conf\<close> once the first stage has returned. Neither
  removal asks what the merge achieved: when validation rejects every candidate, the settings
  come back as they went in and the file is removed all the same.
\<close>

theorem legacy_file_is_removed_after_merge:
  "(libtribler_conf s = Some content \<longrightarrow> rcp_read env content = Inr cfg \<longrightarrow>
    add_libtribler_config env current_config cfg = Inr (c, calls) \<longrightarrow>
      libtribler_conf (fst (convert_config_to_tribler71 env current_config s)) = None
      \<and> (\<exists>ops. journal (fst (convert_config_to_tribler71 env current_config s)) =
                 journal s @ Removed ''libtribler.conf'' # ops)
      \<and> ((\<forall>d. \<not> validate env d) \<longrightarrow> c = current_config))
   \<and> (merge_libtribler_file env current_config s = (s1, Inr c1) \<longrightarrow>
      tribler_conf s = Some content' \<longrightarrow> rcp_read env content' = Inr cfg' \<longrightarrow>
      add_tribler_config env c1 cfg' = Inr (c', calls') \<longrightarrow>
        tribler_conf (fst (convert_config_to_tribler71 env current_config s)) = None
        \<and> (\<exists>ops. journal (fst (convert_config_to_tribler71 env current_config s)) =
                   journal s1 @ Removed ''tribler.conf'' # ops)
        \<and> ((\<forall>d. \<not> validate env d) \<longrightarrow> c' = c1))"
proof (intro conjI impI)
  assume h: "libtribler_conf s = Some content" "rcp_read env content = Inr cfg"
    "add_libtribler_config env current_config cfg = Inr (c, calls)"
  let ?s1 = "s\<lparr>libtribler_conf := None, journal := journal s @ [Removed ''libtribler.conf'']\<rparr>"
  have m: "merge_libtribler_file env current_config s = (?s1, Inr c)"
    using h by (simp add: merge_libtribler_file_def)
  from convert71_after_first_stage [OF m]
  show "libtribler_conf (fst (convert_config_to_tribler71 env current_config s)) = None"
    and "\<exists>ops. journal (fst (convert_config_to_tribler71 env current_config s)) =
               journal s @ Removed ''libtribler.conf'' # ops"
    by auto
  assume "\<forall>d. \<not> validate env d"
  then show "c = current_config"
    using h(3) merge_fields_result [of env "libtribler_mutation env" current_config "fields_of cfg" c calls]
    by (auto simp: add_libtribler_config_def)
next
  assume h: "merge_libtribler_file env current_config s = (s1, Inr c1)"
    "tribler_conf s = Some content'" "rcp_read env content' = Inr cfg'"
    "add_tribler_config env c1 cfg' = Inr (c', calls')"
  have same: "tribler_conf s1 = tribler_conf s"
    using h(1) by (auto simp: merge_libtribler_file_def split: option.splits sum.splits)
  let ?s2 = "s1\<lparr>tribler_conf := None, journal := journal s1 @ [Removed ''tribler.conf'']\<rparr>"
  have m: "merge_tribler_file env c1 s1 = (?s2, Inr c')"
    using h same by (simp add: merge_tribler_file_def)
  from convert71_after_second_stage [OF h(1) m]
  show "tribler_conf (fst (convert_config_to_tribler71 env current_config s)) = None"
    and "\<exists>ops. journal (fst (convert_config_to_tribler71 env current_config s)) =
               journal s1 @ Removed ''tribler.conf'' # ops"
    by auto
  assume "\<forall>d. \<not> validate env d"
  then show "c' = c1"
    using h(4) merge_fields_result [of env "tribler_mutation env" c1 "fields_of cfg'" c' calls']
    by (auto simp: add_tribler_config_def)
qed

theorem legacy_file_is_removed_after_merge_witness:
  "libtribler_conf (fst (convert_config_to_tribler71 rejecting_env example_config example_legacy_dir)) = None
   \<and> tribler_conf (fst (convert_config_to_tribler71 rejecting_env example_config example_legacy_dir)) = None
   \<and> (\<exists>ops. journal (fst (convert_config_to_tribler71 rejecting_env example_config example_legacy_dir)) =
              Removed ''libtribler.conf'' # ops)
   \<and> add_libtribler_config rejecting_env example_config [(''libtorrent'', [(''lt_proxytype'', ''2'')])] =
       Inr (example_config,
            [LiteralEval ''2'', Dispatch ''libtorrent'' ''lt_proxytype'' (PInt 2), Validate, LogDebug])
   \<and> add_tribler_config rejecting_env example_config [(''Tribler'', [(''default_number_hops'', ''2'')])] =
       Inr (example_config,
            [LiteralEval ''2'', Dispatch ''Tribler'' ''default_number_hops'' (PInt 2), Validate,
             LogDebug])"
proof -
  let ?lib = "Legacy [(''libtorrent'', [(''lt_proxytype'', ''2'')])]"
  let ?tri = "Legacy [(''Tribler'', [(''default_number_hops'', ''2'')])]"
  let ?s1 = "example_legacy_dir\<lparr>libtribler_conf := None, journal := [Removed ''libtribler.conf'']\<rparr>"
  have l1: "libtribler_conf example_legacy_dir = Some ?lib"
    by (simp add: example_legacy_dir_def)
  have l2: "rcp_read rejecting_env ?lib = Inr [(''libtorrent'', [(''lt_proxytype'', ''2'')])]"
    by (simp add: rejecting_env_def example_env_def example_read_def)
  have l3: "add_libtribler_config rejecting_env example_config
              [(''libtorrent'', [(''lt_proxytype'', ''2'')])] =
            Inr (example_config,
                 [LiteralEval ''2'', Dispatch ''libtorrent'' ''lt_proxytype'' (PInt 2), Validate,
                  LogDebug])"
    by (simp add: add_libtribler_config_def fields_of_def merge_field_def decode_value_def
          rejecting_env_def example_env_def example_literal_eval_def strip_newlines_def
          libtribler_mutation_def set_item_def example_config_def)
  have t0: "merge_libtribler_file rejecting_env example_config example_legacy_dir =
            (?s1, Inr example_config)"
    using l1 l2 l3 by (simp add: merge_libtribler_file_def example_legacy_dir_def)
  have t1: "tribler_conf example_legacy_dir = Some ?tri"
    by (simp add: example_legacy_dir_def)
  have t2: "rcp_read rejecting_env ?tri = Inr [(''Tribler'', [(''default_number_hops'', ''2'')])]"
    by (simp add: rejecting_env_def example_env_def example_read_def)
  have t3: "add_tribler_config rejecting_env example_config
              [(''Tribler'', [(''default_number_hops'', ''2'')])] =
            Inr (example_config,
                 [LiteralEval ''2'', Dispatch ''Tribler'' ''default_number_hops'' (PInt 2), Validate,
                  LogDebug])"
    by (simp add: add_tribler_config_def fields_of_def merge_field_def decode_value_def
          rejecting_env_def example_env_def example_literal_eval_def strip_newlines_def
          tribler_mutation_def and_then_def when_do_def example_setter_def)
  have rej: "\<forall>d. \<not> validate rejecting_env d"
    by (simp add: rejecting_env_def)
  note inst = legacy_file_is_removed_after_merge
    [where env = rejecting_env and current_config = example_config and s = example_legacy_dir]
  have a: "libtribler_conf (fst (convert_config_to_tribler71 rejecting_env example_config
                                   example_legacy_dir)) = None
           \<and> (\<exists>ops. journal (fst (convert_config_to_tribler71 rejecting_env example_config
                                      example_legacy_dir)) =
                      journal example_legacy_dir @ Removed ''libtribler.conf'' # ops)"
    using inst [THEN conjunct1, rule_format, OF l1 l2 l3] by blast
  have b: "tribler_conf (fst (convert_config_to_tribler71 rejecting_env example_config
                                example_legacy_dir)) = None"
    using inst [THEN conjunct2, rule_format, OF t0 t1 t2 t3] by blast
  have j: "journal example_legacy_dir = []"
    by (simp add: example_legacy_dir_def)
  from a b l3 t3 j show ?thesis by simp
qed

section \<open>Claims about convert_config_to_tribler74\<close>

lemma lookup_raw_map_entry:
  "lookup_raw (AList.map_entry section (AList.update option text) cfg) section' option' =
     (if section' = section \<and> map_of cfg section \<noteq> None \<and> option' = option then Some text
      else lookup_raw cfg section' option')"
  by (auto simp: lookup_raw_def map_of_map_entry update_conv' split: option.splits)

text \<open>
  C8: for an option of section \<^verbatim>\<open>state\<close> whose modernized text evaluates to \<open>raw\<close> and whose
  repair pass gives \<open>ungarbled\<close>, the value handed to the codec is \<open>ungarbled\<close> when that is
  truthy and \<open>raw\<close> when it is falsy, and the option is set to the base64 text of the bencoded
  value; nothing else of the parser or of the directory changes.
\<close>

theorem reencoded_value_falls_back_to_raw:
  assumes "lookup_raw old_config ''state'' opt = Some value0"
    and "refactor_string env (value0 @ [CHR 0x0A]) (opt @ ''_2to3'') = Inr text"
    and "literal_eval env text = Inr raw"
    and "recursive_ungarble_metainfo env raw = Inr ungarbled"
    and "bencode env (if truthy ungarbled then ungarbled else raw) = Inr encoded"
  shows "reencode env text ungarbled = Inr (b64encode env encoded)
         \<and> upgrade_option env filename (s, old_config) (''state'', opt) =
             ((s, AList.map_entry ''state'' (AList.update opt (b64encode env encoded)) old_config),
              None)
         \<and> lookup_raw (AList.map_entry ''state'' (AList.update opt (b64encode env encoded))
                          old_config) ''state'' opt = Some (b64encode env encoded)"
proof -
  have r: "reencode env text ungarbled = Inr (b64encode env encoded)"
    using assms(3,5) by (cases "truthy ungarbled") (simp_all add: reencode_def and_then_def)
  have u: "upgrade_option env filename (s, old_config) (''state'', opt) =
             ((s, AList.map_entry ''state'' (AList.update opt (b64encode env encoded)) old_config),
              None)"
    using assms(1-4) r by (simp add: upgrade_option_def and_then_def)
  have "map_of old_config ''state'' \<noteq> None"
    using assms(1) by (auto simp: lookup_raw_def split: option.splits)
  then have l: "lookup_raw (AList.map_entry ''state'' (AList.update opt (b64encode env encoded))
                          old_config) ''state'' opt = Some (b64encode env encoded)"
    by (simp add: lookup_raw_map_entry)
  from r u l show ?thesis by simp
qed

theorem reencoded_value_falls_back_to_raw_witness:
  "upgrade_option example_env ''a.state''
     (example_legacy_dir, [(''state'', [(''metainfo'', ''{'a': 1}''), (''engineresumedata'', ''{}'')])])
     (''state'', ''metainfo'') =
     ((example_legacy_dir, [(''state'', [(''metainfo'', ''ZDE6YWkxZWU=''), (''engineresumedata'', ''{}'')])]), None)
   \<and> upgrade_option example_env ''a.state''
       (example_legacy_dir, [(''state'', [(''metainfo'', ''{'a': 1}''), (''engineresumedata'', ''{}'')])])
       (''state'', ''engineresumedata'') =
       ((example_legacy_dir, [(''state'', [(''metainfo'', ''{'a': 1}''), (''engineresumedata'', ''ZGU='')])]), None)
   \<and> recursive_ungarble_metainfo example_env (PDict []) = Inr PNone
   \<and> \<not> truthy PNone"
proof -
  let ?old = "[(''state'', [(''metainfo'', ''{'a': 1}''), (''engineresumedata'', ''{}'')])]"
  have g1: "lookup_raw ?old ''state'' ''metainfo'' = Some ''{'a': 1}''"
    by (simp add: lookup_raw_def)
  have g2: "lookup_raw ?old ''state'' ''engineresumedata'' = Some ''{}''"
    by (simp add: lookup_raw_def)
  have f1: "refactor_string example_env (''{'a': 1}'' @ [CHR 0x0A]) (''metainfo'' @ ''_2to3'') =
            Inr (''{'a': 1}'' @ [CHR 0x0A])"
    by (simp add: example_env_def)
  have f2: "refactor_string example_env (''{}'' @ [CHR 0x0A]) (''engineresumedata'' @ ''_2to3'') =
            Inr (''{}'' @ [CHR 0x0A])"
    by (simp add: example_env_def)
  have e1: "literal_eval example_env (''{'a': 1}'' @ [CHR 0x0A]) = Inr (PDict [(PStr ''a'', PInt 1)])"
    by (simp add: example_env_def example_literal_eval_def strip_newlines_def)
  have e2: "literal_eval example_env (''{}'' @ [CHR 0x0A]) = Inr (PDict [])"
    by (simp add: example_env_def example_literal_eval_def strip_newlines_def)
  have u1: "recursive_ungarble_metainfo example_env (PDict [(PStr ''a'', PInt 1)]) =
            Inr (PDict [(PStr ''a'', PInt 1)])"
    by (simp add: example_env_def example_ungarble_def)
  have u2: "recursive_ungarble_metainfo example_env (PDict []) = Inr PNone"
    by (simp add: example_env_def example_ungarble_def)
  have b1: "bencode example_env (if truthy (PDict [(PStr ''a'', PInt 1)])
                                 then PDict [(PStr ''a'', PInt 1)]
                                 else PDict [(PStr ''a'', PInt 1)]) = Inr ''d1:ai1ee''"
    by (simp add: example_env_def example_bencode_def)
  have b2: "bencode example_env (if truthy PNone then PNone else PDict []) = Inr ''de''"
    by (simp add: example_env_def example_bencode_def)
  have c1: "b64encode example_env ''d1:ai1ee'' = ''ZDE6YWkxZWU=''"
    by (simp add: example_env_def example_b64encode_def)
  have c2: "b64encode example_env ''de'' = ''ZGU=''"
    by (simp add: example_env_def example_b64encode_def)
  have one: "upgrade_option example_env ''a.state'' (example_legacy_dir, ?old) (''state'', ''metainfo'') =
             ((example_legacy_dir, [(''state'', [(''metainfo'', ''ZDE6YWkxZWU=''), (''engineresumedata'', ''{}'')])]),
              None)"
    using reencoded_value_falls_back_to_raw [OF g1 f1 e1 u1 b1, of "''a.state''" example_legacy_dir]
    by (simp add: c1)
  have two: "upgrade_option example_env ''a.state'' (example_legacy_dir, ?old) (''state'', ''engineresumedata'') =
             ((example_legacy_dir, [(''state'', [(''metainfo'', ''{'a': 1}''), (''engineresumedata'', ''ZGU='')])]),
              None)"
    using reencoded_value_falls_back_to_raw [OF g2 f2 e2 u2 b2, of "''a.state''" example_legacy_dir]
    by (simp add: c2)
  from one two u2 show ?thesis by simp
qed

lemma conf_name_differs:
  assumes "ends_with ''.state'' filename"
  shows "take (length filename - 6) filename @ ''.conf'' \<noteq> filename"
proof
  assume eq: "take (length filename - 6) filename @ ''.conf'' = filename"
  have "6 \<le> length filename"
    using assms by (simp add: ends_with_def)
  moreover have "length (take (length filename - 6) filename @ ''.conf'') = length filename"
    using eq by simp
  ultimately show False by simp
qed

lemma set_value_lookup:
  "lookup_value (set_value section key val t) section' key' =
     (if section' = section \<and> key' = key then Some val else lookup_value t section' key')"
  by (auto simp: lookup_value_def set_value_def update_conv' split: option.splits)

lemma copy_sections_fields:
  "copy_sections env old_config new_config =
     foldl (\<lambda>t (section, key, raw). set_value section key (ccp_literal env raw) t) new_config
       (fields_of old_config)"
proof (induction old_config arbitrary: new_config)
  case Nil
  show ?case by (simp add: copy_sections_def fields_of_def)
next
  case (Cons entry old_config)
  obtain sec items where e: "entry = (sec, items)" by (cases entry)
  have inner: "foldl (\<lambda>nc' (key, raw). set_value sec key (ccp_literal env raw) nc') t items =
               foldl (\<lambda>t (section, key, raw). set_value section key (ccp_literal env raw) t) t
                 (map (\<lambda>(name, string_value). (sec, name, string_value)) items)" for t
    by (induction items arbitrary: t) (auto simp: case_prod_beta)
  show ?case
    using Cons.IH inner by (simp add: copy_sections_def fields_of_def e)
qed

lemma copied_fields_lookup:
  assumes "distinct (map (\<lambda>(section, key, raw). (section, key)) fs)"
    and "(section, key, raw) \<in> set fs"
  shows "lookup_value (foldl (\<lambda>t (section, key, raw). set_value section key (f raw) t) t0 fs)
           section key = Some (f raw)"
  using assms
proof (induction fs rule: rev_induct)
  case Nil
  then show ?case by simp
next
  case (snoc x fs)
  obtain s k r where x: "x = (s, k, r)" by (cases x)
  show ?case
  proof (cases "s = section \<and> k = key")
    case True
    have "r = raw"
    proof (rule ccontr)
      assume "r \<noteq> raw"
      then have "(section, key, raw) \<in> set fs"
        using snoc.prems(2) x by auto
      then have "(section, key) \<in> set (map (\<lambda>(section, key, raw). (section, key)) fs)"
        by force
      then show False
        using snoc.prems(1) x True by simp
    qed
    then show ?thesis using x True by (simp add: set_value_lookup)
  next
    case False
    then have "(section, key, raw) \<in> set fs"
      using snoc.prems(2) x by auto
    then show ?thesis
      using snoc.IH snoc.prems(1) x False by (auto simp: set_value_lookup)
  qed
qed

text \<open>
  C9: for a \<^verbatim>\<open>.state\<close> file that upgrades (it is read, both options are re-encoded without an
  exception and without the directory being touched, and the structured file can be set up),
  \<^verbatim>\<open>convert_config_to_tribler74\<close> does exactly two things to the directory, in this order: it
  writes the \<^verbatim>\<open>.conf\<close> file of the same base name, then it removes the \<^verbatim>\<open>.state\<close> file. The
  removal acts on a directory that already holds the new file, and the new file holds every key
  of every section of the parser as it stands after the re-encoding and the removal of
  \<^verbatim>\<open>dlstate\<close>, with the value the parser gives for it.
\<close>

theorem new_file_is_written_before_old_is_removed:
  assumes "map_of (checkpoint_dir s) filename = Some content"
    and "ends_with ''.state'' filename"
    and "ccp_read env content = Inr old_config"
    and "upgrade_options env filename (s, old_config)
           [(''state'', ''metainfo''), (''state'', ''engineresumedata'')] = ((s, upgraded), None)"
    and "load_new_config env s (take (length filename - 6) filename @ ''.conf'') = Inr new_config"
    and "distinct (map (\<lambda>(section, key, raw). (section, key)) (fields_of (remove_dlstate upgraded)))"
  shows "let conf_name = take (length filename - 6) filename @ ''.conf'';
             written = copy_sections env (remove_dlstate upgraded) new_config;
             s1 = write_file conf_name (cobj_write env written) s;
             s2 = fst (convert74_file env s filename)
         in convert74_file env s filename = (s2, None)
            \<and> os_remove filename s1 = Inr s2
            \<and> journal s2 = journal s @ [Wrote conf_name, Removed filename]
            \<and> map_of (checkpoint_dir s1) conf_name = Some (cobj_write env written)
            \<and> map_of (checkpoint_dir s1) filename = Some content
            \<and> map_of (checkpoint_dir s2) conf_name = Some (cobj_write env written)
            \<and> map_of (checkpoint_dir s2) filename = None
            \<and> (\<forall>(section, key, raw) \<in> set (fields_of (remove_dlstate upgraded)).
                  lookup_value written section key = Some (ccp_literal env raw))"
proof -
  define conf_name where "conf_name = take (length filename - 6) filename @ ''.conf''"
  define written where "written = copy_sections env (remove_dlstate upgraded) new_config"
  define s1 where "s1 = write_file conf_name (cobj_write env written) s"
  define s2 where "s2 = s1\<lparr>checkpoint_dir := AList.delete filename (checkpoint_dir s1),
                           journal := journal s1 @ [Removed filename]\<rparr>"
  have ne: "conf_name \<noteq> filename"
    using conf_name_differs [OF assms(2)] by (simp add: conf_name_def)
  have old1: "map_of (checkpoint_dir s1) filename = Some content"
    using assms(1) ne by (simp add: s1_def write_file_def update_conv')
  have new1: "map_of (checkpoint_dir s1) conf_name = Some (cobj_write env written)"
    by (simp add: s1_def write_file_def update_conv')
  have rm: "os_remove filename s1 = Inr s2"
    using old1 by (simp add: os_remove_def s2_def)
  have run: "convert74_file env s filename = (s2, None)"
    using assms(1,3,4,5) rm
    by (simp add: convert74_file_def convert74_rest_def Let_def conf_name_def [symmetric]
          written_def [symmetric] s1_def [symmetric])
  have j: "journal s2 = journal s @ [Wrote conf_name, Removed filename]"
    by (simp add: s2_def s1_def write_file_def)
  have new2: "map_of (checkpoint_dir s2) conf_name = Some (cobj_write env written)"
    using new1 ne by (simp add: s2_def delete_conv')
  have old2: "map_of (checkpoint_dir s2) filename = None"
    by (simp add: s2_def delete_conv')
  have all: "\<forall>(section, key, raw) \<in> set (fields_of (remove_dlstate upgraded)).
               lookup_value written section key = Some (ccp_literal env raw)"
    using copied_fields_lookup [OF assms(6), of _ _ _ "ccp_literal env" new_config]
    by (auto simp: written_def copy_sections_fields)
  show ?thesis
    using run rm j new1 old1 new2 old2 all
    by (simp add: Let_def conf_name_def [symmetric] written_def [symmetric] s1_def [symmetric])
qed

theorem new_file_is_written_before_old_is_removed_witness:
  "journal (fst (convert74_file example_env (example_checkpoints (Legacy example_good_state))
                   ''a.state'')) = [Wrote ''a.conf'', Removed ''a.state'']
   \<and> map_of (checkpoint_dir (fst (convert74_file example_env
                                      (example_checkpoints (Legacy example_good_state)) ''a.state'')))
         ''a.conf'' =
       Some (Structured
               [(''state'', [(''metainfo'', PStr ''ZDE6YWkxZWU=''), (''engineresumedata'', PStr ''ZGU='')]),
                (''download_defaults'', [(''hops'', PInt 2)])])
   \<and> map_of (checkpoint_dir (fst (convert74_file example_env
                                      (example_checkpoints (Legacy example_good_state)) ''a.state'')))
         ''a.state'' = None"
proof -
  let ?s = "example_checkpoints (Legacy example_good_state)"
  let ?up = "[(''state'', [(''metainfo'', ''ZDE6YWkxZWU=''), (''engineresumedata'', ''ZGU=''),
                           (''dlstate'', ''2'')]),
              (''download_defaults'', [(''hops'', ''2'')])]"
  have h1: "map_of (checkpoint_dir ?s) ''a.state'' = Some (Legacy example_good_state)"
    by (simp add: example_checkpoints_def)
  have h2: "ends_with ''.state'' ''a.state''"
    by (simp add: ends_with_def)
  have h3: "ccp_read example_env (Legacy example_good_state) = Inr example_good_state"
    by (simp add: example_env_def example_read_def)
  have h4: "upgrade_options example_env ''a.state'' (?s, example_good_state)
              [(''state'', ''metainfo''), (''state'', ''engineresumedata'')] = ((?s, ?up), None)"
    by (simp add: upgrade_option_def lookup_raw_def example_good_state_def example_env_def
          example_literal_eval_def strip_newlines_def example_ungarble_def reencode_def
          and_then_def example_bencode_def example_b64encode_def)
  have h5: "load_new_config example_env ?s (take (length ''a.state'' - 6) ''a.state'' @ ''.conf'') =
            Inr []"
    by (simp add: load_new_config_def example_checkpoints_def)
  have rd: "remove_dlstate ?up =
            [(''state'', [(''metainfo'', ''ZDE6YWkxZWU=''), (''engineresumedata'', ''ZGU='')]),
             (''download_defaults'', [(''hops'', ''2'')])]"
    by (simp add: remove_dlstate_def)
  have h6: "distinct (map (\<lambda>(section, key, raw). (section, key)) (fields_of (remove_dlstate ?up)))"
    by (simp add: rd fields_of_def)
  have cs: "copy_sections example_env (remove_dlstate ?up) [] =
            [(''state'', [(''metainfo'', PStr ''ZDE6YWkxZWU=''), (''engineresumedata'', PStr ''ZGU='')]),
             (''download_defaults'', [(''hops'', PInt 2)])]"
    by (simp add: rd copy_sections_def set_value_def example_env_def example_decode_def
          example_literal_eval_def strip_newlines_def)
  have cw: "cobj_write example_env = Structured"
    by (simp add: example_env_def)
  have j0: "journal ?s = []"
    by (simp add: example_checkpoints_def)
  show ?thesis
    using new_file_is_written_before_old_is_removed [OF h1 h2 h3 h4 h5 h6]
    by (simp add: Let_def cs cw j0)
qed

text \<open>
  The first evaluation of an option's text is not guarded: whatever \<^verbatim>\<open>ast.literal_eval\<close>
  raises at line 222 leaves the loop body, with the directory and the parser as they were.
\<close>

lemma undecodable_option_raises:
  assumes "lookup_raw old_config sec opt = Some value0"
    and "refactor_string env (value0 @ [CHR 0x0A]) (opt @ ''_2to3'') = Inr text"
    and "literal_eval env text = Inl e"
  shows "upgrade_option env filename (s, old_config) (sec, opt) = ((s, old_config), Some e)"
  using assms by (simp add: upgrade_option_def and_then_def)

text \<open>
  After \<^verbatim>\<open>MissingSectionHeaderError\<close> the loop body goes on with the empty parser, in which the
  first option is missing.
\<close>

lemma headerless_file_raises:
  assumes "map_of (checkpoint_dir s) filename = Some content"
    and "ccp_read env content = Inl MissingSectionHeaderError"
  shows "snd (convert74_file env s filename) = Some (ccp_missing env)"
  using assms
  by (simp add: convert74_file_def convert74_rest_def os_remove_def log_error_def
        upgrade_option_def lookup_raw_def)

text \<open>
  C1: three checkpoint directories with a legacy file \<^verbatim>\<open>a.state\<close> that cannot be migrated,
  followed by a file \<^verbatim>\<open>b.state\<close> that can. In each of them an exception leaves
  \<^verbatim>\<open>convert_config_to_tribler74\<close> while it works on \<^verbatim>\<open>a.state\<close>, and \<^verbatim>\<open>b.state\<close> is still
  there, unmigrated, when it does.
  \<^item> The text of \<^verbatim>\<open>metainfo\<close> is no literal: \<^verbatim>\<open>ast.literal_eval\<close> of line 222 stands before
    the \<^verbatim>\<open>try\<close>, its \<^verbatim>\<open>SyntaxError\<close> is not caught, and the file is not even removed.
  \<^item> The codec refuses the value of \<^verbatim>\<open>metainfo\<close>: the handler logs and removes the file, but
    its \<^verbatim>\<open>continue\<close> belongs to the loop over the two options, so the second option is
    re-encoded, \<^verbatim>\<open>a.conf\<close> is written and the removal of line 243 raises
    \<^verbatim>\<open>FileNotFoundError\<close>.
  \<^item> The file has no section header: the handler logs and removes the file and falls through
    to line 220, where the empty parser has no option \<^verbatim>\<open>metainfo\<close>.
\<close>

theorem corrupt_checkpoint_aborts_migration:
  "convert_config_to_tribler74 example_env
     (example_checkpoints
        (Legacy [(''state'', [(''metainfo'', ''{'a': [1''), (''engineresumedata'', ''{}'')])])) =
     (example_checkpoints
        (Legacy [(''state'', [(''metainfo'', ''{'a': [1''), (''engineresumedata'', ''{}'')])]),
      Some SyntaxError)
   \<and> convert_config_to_tribler74 example_env
       (example_checkpoints
          (Legacy [(''state'', [(''metainfo'', ''{'b': None}''), (''engineresumedata'', ''{}'')])])) =
       (\<lparr>libtribler_conf = None, tribler_conf = None,
         checkpoint_dir =
           [(''b.state'', Legacy example_good_state),
            (''a.conf'',
             Structured [(''state'', [(''metainfo'', PDict [(PStr ''b'', PNone)]),
                                      (''engineresumedata'', PStr ''ZGU='')])])],
         journal = [LoggedError ''a.state'', Removed ''a.state'', Wrote ''a.conf'']\<rparr>,
        Some FileNotFoundError)
   \<and> convert_config_to_tribler74 example_env (example_checkpoints NoHeader) =
       (\<lparr>libtribler_conf = None, tribler_conf = None,
         checkpoint_dir = [(''b.state'', Legacy example_good_state)],
         journal = [LoggedError ''a.state'', Removed ''a.state'']\<rparr>,
        Some TypeError)"
proof (intro conjI)
  show "convert_config_to_tribler74 example_env
     (example_checkpoints
        (Legacy [(''state'', [(''metainfo'', ''{'a': [1''), (''engineresumedata'', ''{}'')])])) =
     (example_checkpoints
        (Legacy [(''state'', [(''metainfo'', ''{'a': [1''), (''engineresumedata'', ''{}'')])]),
      Some SyntaxError)"
    by (simp add: convert_config_to_tribler74_def glob_def ends_with_def example_checkpoints_def
          convert74_file_def convert74_rest_def upgrade_option_def lookup_raw_def example_env_def
          example_read_def example_literal_eval_def strip_newlines_def and_then_def)
next
  show "convert_config_to_tribler74 example_env
       (example_checkpoints
          (Legacy [(''state'', [(''metainfo'', ''{'b': None}''), (''engineresumedata'', ''{}'')])])) =
       (\<lparr>libtribler_conf = None, tribler_conf = None,
         checkpoint_dir =
           [(''b.state'', Legacy example_good_state),
            (''a.conf'',
             Structured [(''state'', [(''metainfo'', PDict [(PStr ''b'', PNone)]),
                                      (''engineresumedata'', PStr ''ZGU='')])])],
         journal = [LoggedError ''a.state'', Removed ''a.state'', Wrote ''a.conf'']\<rparr>,
        Some FileNotFoundError)"
    by (simp add: convert_config_to_tribler74_def glob_def ends_with_def example_checkpoints_def
          convert74_file_def convert74_rest_def upgrade_option_def lookup_raw_def example_env_def
          example_read_def example_literal_eval_def strip_newlines_def and_then_def
          example_ungarble_def reencode_def example_bencode_def example_b64encode_def
          os_remove_def log_error_def write_file_def load_new_config_def remove_dlstate_def
          copy_sections_def set_value_def example_decode_def Let_def)
next
  show "convert_config_to_tribler74 example_env (example_checkpoints NoHeader) =
       (\<lparr>libtribler_conf = None, tribler_conf = None,
         checkpoint_dir = [(''b.state'', Legacy example_good_state)],
         journal = [LoggedError ''a.state'', Removed ''a.state'']\<rparr>,
        Some TypeError)"
    by (simp add: convert_config_to_tribler74_def glob_def ends_with_def example_checkpoints_def
          convert74_file_def convert74_rest_def upgrade_option_def lookup_raw_def example_env_def
          example_read_def os_remove_def log_error_def)
qed

section \<open>Claims about convert_config_to_tribler75 and the whole pipeline\<close>

lemma index_of_Some:
  "index_of x xs = Some i \<Longrightarrow> i < length xs \<and> xs ! i = x"
  by (induction xs arbitrary: i) (auto split: if_splits)

lemma index_of_member:
  "x \<in> set xs \<Longrightarrow> \<exists>i. index_of x xs = Some i"
  by (induction xs) auto

lemma resolve_all_paths:
  assumes "set paths \<subseteq> set files"
  shows "resolve_all files (map PStr paths) =
           Inr (map (\<lambda>p. PInt (int (the (index_of p files)))) paths)"
  using assms
proof (induction paths)
  case Nil
  show ?case by simp
next
  case (Cons p paths)
  then obtain i where "index_of p files = Some i"
    using index_of_member [of p files] by auto
  then show ?case
    using Cons by (simp add: get_index_of_file_in_files_def)
qed

lemma popped_selected_files:
  "lookup_value (pop_selected_files cfg) ''download_defaults'' ''selected_files'' = None"
  by (auto simp: lookup_value_def pop_selected_files_def map_of_map_entry delete_conv'
        split: option.splits)

text \<open>
  C7: a structured checkpoint with metainfo whose \<^verbatim>\<open>selected_files\<close> is
  \<^verbatim>\<open>["a.txt", "c.txt"]\<close> and whose torrent has the files \<^verbatim>\<open>a.txt\<close>, \<^verbatim>\<open>b.txt\<close>, \<^verbatim>\<open>c.txt\<close> is
  written back with \<^verbatim>\<open>set_selected_files([0, 2])\<close> applied to the record from which the entry
  \<^verbatim>\<open>selected_files\<close> has been popped. In general a list of paths of the torrent becomes the list
  of their indices, position by position. When the entry is missing or there is no metainfo,
  nothing is done to the directory.
\<close>

theorem selected_files_become_indexes:
  assumes "map_of (checkpoint_dir s) filename = Some content"
    and "dlc_load env content = Inr cfg"
    and "get_metainfo env cfg = Inr metainfo"
    and "map_of cfg ''download_defaults'' = Some defaults"
  shows "(truthy metainfo \<longrightarrow>
          map_of defaults ''selected_files'' = Some (PList [PStr ''a.txt'', PStr ''c.txt'']) \<longrightarrow>
          torrent_files env metainfo = Inr [''a.txt'', ''b.txt'', ''c.txt''] \<longrightarrow>
            convert75_file env s filename =
              (write_file filename
                 (dlc_write env (set_selected_files env [PInt 0, PInt 2] (pop_selected_files cfg)))
                 s, None)
            \<and> lookup_value (pop_selected_files cfg) ''download_defaults'' ''selected_files'' = None)
         \<and> (truthy metainfo \<longrightarrow> paths \<noteq> [] \<longrightarrow>
            map_of defaults ''selected_files'' = Some (PList (map PStr paths)) \<longrightarrow>
            torrent_files env metainfo = Inr files \<longrightarrow> set paths \<subseteq> set files \<longrightarrow>
              (\<exists>indexes.
                 convert75_file env s filename =
                   (write_file filename
                      (dlc_write env
                         (set_selected_files env (map (\<lambda>i. PInt (int i)) indexes)
                            (pop_selected_files cfg)))
                      s, None)
                 \<and> length indexes = length paths
                 \<and> (\<forall>k < length paths. indexes ! k < length files
                                         \<and> files ! (indexes ! k) = paths ! k)))
         \<and> (map_of defaults ''selected_files'' = None \<or> \<not> truthy metainfo \<longrightarrow>
              convert75_file env s filename = (s, None))"
proof (intro conjI impI)
  assume h: "truthy metainfo"
    "map_of defaults ''selected_files'' = Some (PList [PStr ''a.txt'', PStr ''c.txt''])"
    "torrent_files env metainfo = Inr [''a.txt'', ''b.txt'', ''c.txt'']"
  show "convert75_file env s filename =
          (write_file filename
             (dlc_write env (set_selected_files env [PInt 0, PInt 2] (pop_selected_files cfg)))
             s, None)"
    using assms h
    by (simp add: convert75_file_def py_iter_def and_then_def get_index_of_file_in_files_def)
  show "lookup_value (pop_selected_files cfg) ''download_defaults'' ''selected_files'' = None"
    by (rule popped_selected_files)
next
  assume h: "truthy metainfo" "paths \<noteq> []"
    "map_of defaults ''selected_files'' = Some (PList (map PStr paths))"
    "torrent_files env metainfo = Inr files" "set paths \<subseteq> set files"
  let ?ix = "map (\<lambda>p. the (index_of p files)) paths"
  have r: "resolve_all files (map PStr paths) = Inr (map (\<lambda>i. PInt (int i)) ?ix)"
    using resolve_all_paths [OF h(5)] by (simp add: comp_def)
  have run: "convert75_file env s filename =
               (write_file filename
                  (dlc_write env
                     (set_selected_files env (map (\<lambda>i. PInt (int i)) ?ix) (pop_selected_files cfg)))
                  s, None)"
    using assms h(1-4) r by (simp add: convert75_file_def py_iter_def and_then_def)
  have pos: "\<forall>k < length paths. ?ix ! k < length files \<and> files ! (?ix ! k) = paths ! k"
  proof (intro allI impI)
    fix k
    assume k: "k < length paths"
    then have "paths ! k \<in> set files"
      using h(5) by auto
    then obtain i where i: "index_of (paths ! k) files = Some i"
      using index_of_member by fastforce
    then show "?ix ! k < length files \<and> files ! (?ix ! k) = paths ! k"
      using k index_of_Some [OF i] by simp
  qed
  show "\<exists>indexes.
          convert75_file env s filename =
            (write_file filename
               (dlc_write env
                  (set_selected_files env (map (\<lambda>i. PInt (int i)) indexes)
                     (pop_selected_files cfg)))
               s, None)
          \<and> length indexes = length paths
          \<and> (\<forall>k < length paths. indexes ! k < length files \<and> files ! (indexes ! k) = paths ! k)"
    using run pos by (intro exI [of _ ?ix]) simp
next
  assume "map_of defaults ''selected_files'' = None \<or> \<not> truthy metainfo"
  then show "convert75_file env s filename = (s, None)"
    using assms by (auto simp: convert75_file_def)
qed

theorem selected_files_become_indexes_witness:
  "convert_config_to_tribler75 example_env
     (example_conf_dir [(''a.conf'', example_selected_conf), (''b.conf'', example_plain_conf)]) =
     (\<lparr>libtribler_conf = None, tribler_conf = None,
       checkpoint_dir =
         [(''a.conf'',
           Structured
             [(''download_defaults'',
               [(''hops'', PInt 1), (''selected_file_indexes'', PList [PInt 0, PInt 2])]),
              (''state'', [(''metainfo'', PList [PStr ''a.txt'', PStr ''b.txt'', PStr ''c.txt''])])]),
          (''b.conf'', Structured example_plain_conf)],
       journal = [Wrote ''a.conf'']\<rparr>,
      None)"
proof -
  let ?s0 = "example_conf_dir [(''a.conf'', example_selected_conf), (''b.conf'', example_plain_conf)]"
  let ?m = "PList [PStr ''a.txt'', PStr ''b.txt'', PStr ''c.txt'']"
  let ?new = "set_selected_files example_env [PInt 0, PInt 2] (pop_selected_files example_selected_conf)"
  let ?s1 = "write_file ''a.conf'' (dlc_write example_env ?new) ?s0"
  have a1: "map_of (checkpoint_dir ?s0) ''a.conf'' = Some (Structured example_selected_conf)"
    by (simp add: example_conf_dir_def)
  have a2: "dlc_load example_env (Structured example_selected_conf) = Inr example_selected_conf"
    by (simp add: example_env_def example_load_def)
  have a3: "get_metainfo example_env example_selected_conf = Inr ?m"
    by (simp add: example_env_def example_metainfo_def example_selected_conf_def)
  have a4: "map_of example_selected_conf ''download_defaults'' =
            Some [(''selected_files'', PList [PStr ''a.txt'', PStr ''c.txt'']), (''hops'', PInt 1)]"
    by (simp add: example_selected_conf_def)
  have a5: "truthy ?m"
    by simp
  have a6: "map_of [(''selected_files'', PList [PStr ''a.txt'', PStr ''c.txt'']), (''hops'', PInt 1)]
              ''selected_files'' = Some (PList [PStr ''a.txt'', PStr ''c.txt''])"
    by simp
  have a7: "torrent_files example_env ?m = Inr [''a.txt'', ''b.txt'', ''c.txt'']"
    by (simp add: example_env_def example_torrent_files_def)
  have run_a: "convert75_file example_env ?s0 ''a.conf'' = (?s1, None)"
    using selected_files_become_indexes [OF a1 a2 a3 a4, THEN conjunct1, rule_format, OF a5 a6 a7]
    by simp
  have b1: "map_of (checkpoint_dir ?s1) ''b.conf'' = Some (Structured example_plain_conf)"
    by (simp add: example_conf_dir_def write_file_def)
  have b2: "dlc_load example_env (Structured example_plain_conf) = Inr example_plain_conf"
    by (simp add: example_env_def example_load_def)
  have b3: "get_metainfo example_env example_plain_conf = Inr ?m"
    by (simp add: example_env_def example_metainfo_def example_plain_conf_def)
  have b4: "map_of example_plain_conf ''download_defaults'' = Some [(''hops'', PInt 1)]"
    by (simp add: example_plain_conf_def)
  have b5: "map_of [(''hops'', PInt 1)] ''selected_files'' = None \<or> \<not> truthy ?m"
    by simp
  have run_b: "convert75_file example_env ?s1 ''b.conf'' = (?s1, None)"
    using selected_files_become_indexes
            [OF b1 b2 b3 b4, THEN conjunct2, THEN conjunct2, rule_format, OF b5]
    by simp
  have names: "glob ''.conf'' ?s0 = [''a.conf'', ''b.conf'']"
    by (simp add: glob_def ends_with_def example_conf_dir_def)
  have new: "?s1 =
     \<lparr>libtribler_conf = None, tribler_conf = None,
       checkpoint_dir =
         [(''a.conf'',
           Structured
             [(''download_defaults'',
               [(''hops'', PInt 1), (''selected_file_indexes'', PList [PInt 0, PInt 2])]),
              (''state'', [(''metainfo'', PList [PStr ''a.txt'', PStr ''b.txt'', PStr ''c.txt''])])]),
          (''b.conf'', Structured example_plain_conf)],
       journal = [Wrote ''a.conf'']\<rparr>"
    by (simp add: write_file_def example_conf_dir_def example_env_def pop_selected_files_def
          set_value_def example_selected_conf_def)
  show ?thesis
    unfolding convert_config_to_tribler75_def names
    using run_a run_b new by simp
qed

lemma for_each_noop:
  "(\<forall>n \<in> set names. body s n = (s, None)) \<Longrightarrow> for_each body s names = (s, None)"
  by (induction names) auto

text \<open>
  C2, as the claim states it, fails: a structured checkpoint with metainfo whose
  \<^verbatim>\<open>selected_files\<close> already holds the indices \<^verbatim>\<open>[0, 2]\<close> is not skipped by
  \<^verbatim>\<open>convert_config_to_tribler75\<close>. The test of line 254 asks only whether the entry is there and
  not empty, so the indices are looked up as paths of the torrent, which they are not, and the
  run ends with the exception of the lookup instead of returning.
\<close>

theorem rerun_with_index_list_counterexample:
  "full_pipeline example_env example_config (example_conf_dir [(''a.conf'', example_indexed_conf)]) =
     (example_conf_dir [(''a.conf'', example_indexed_conf)], Inl ValueError)
   \<and> full_pipeline example_env example_config
         (example_conf_dir [(''a.conf'', example_indexed_conf)]) \<noteq>
       (example_conf_dir [(''a.conf'', example_indexed_conf)], Inr example_config)"
proof -
  have "full_pipeline example_env example_config
          (example_conf_dir [(''a.conf'', example_indexed_conf)]) =
        (example_conf_dir [(''a.conf'', example_indexed_conf)], Inl ValueError)"
    by (simp add: full_pipeline_def convert_config_to_tribler71_def merge_libtribler_file_def
          merge_tribler_file_def convert_config_to_tribler74_def convert_config_to_tribler75_def
          glob_def ends_with_def example_conf_dir_def convert75_file_def example_env_def
          example_load_def example_metainfo_def example_indexed_conf_def
          example_torrent_files_def py_iter_def and_then_def get_index_of_file_in_files_def)
  then show ?thesis by simp
qed

text \<open>
  C2, amended: on a state directory without legacy settings files and without \<^verbatim>\<open>.state\<close>
  checkpoints, in which every \<^verbatim>\<open>.conf\<close> checkpoint loads, has a section
  \<^verbatim>\<open>download_defaults\<close> and has no truthy \<^verbatim>\<open>selected_files\<close> entry or no metainfo, the three
  stages run in order return normally, do nothing to the directory (no write, no removal, no
  log entry) and return the settings they were given.
\<close>

theorem rerun_on_migrated_directory_is_noop:
  assumes "libtribler_conf s = None"
    and "tribler_conf s = None"
    and "glob ''.state'' s = []"
    and "\<forall>name \<in> set (glob ''.conf'' s).
           \<exists>content cfg metainfo defaults.
             map_of (checkpoint_dir s) name = Some content
             \<and> dlc_load env content = Inr cfg
             \<and> get_metainfo env cfg = Inr metainfo
             \<and> map_of cfg ''download_defaults'' = Some defaults
             \<and> \<not> (truthy (case map_of defaults ''selected_files'' of None \<Rightarrow> PNone | Some v \<Rightarrow> v)
                   \<and> truthy metainfo)"
  shows "full_pipeline env current_config s = (s, Inr current_config)"
proof -
  have s71: "convert_config_to_tribler71 env current_config s = (s, Inr current_config)"
    using assms(1-3)
    by (simp add: convert_config_to_tribler71_def merge_libtribler_file_def merge_tribler_file_def)
  have s74: "convert_config_to_tribler74 env s = (s, None)"
    using assms(3) by (simp add: convert_config_to_tribler74_def)
  have "\<forall>name \<in> set (glob ''.conf'' s). convert75_file env s name = (s, None)"
  proof
    fix name
    assume "name \<in> set (glob ''.conf'' s)"
    then obtain content cfg metainfo defaults where
      "map_of (checkpoint_dir s) name = Some content" "dlc_load env content = Inr cfg"
      "get_metainfo env cfg = Inr metainfo" "map_of cfg ''download_defaults'' = Some defaults"
      "\<not> (truthy (case map_of defaults ''selected_files'' of None \<Rightarrow> PNone | Some v \<Rightarrow> v)
          \<and> truthy metainfo)"
      using assms(4) by blast
    then show "convert75_file env s name = (s, None)"
      by (auto simp: convert75_file_def)
  qed
  then have s75: "convert_config_to_tribler75 env s = (s, None)"
    unfolding convert_config_to_tribler75_def by (rule for_each_noop)
  show ?thesis
    by (simp add: full_pipeline_def s71 s74 s75)
qed

theorem rerun_on_migrated_directory_is_noop_witness:
  "full_pipeline example_env example_config
     (example_conf_dir [(''a.conf'', example_migrated_conf), (''b.conf'', example_plain_conf)]) =
     (example_conf_dir [(''a.conf'', example_migrated_conf), (''b.conf'', example_plain_conf)],
      Inr example_config)"
proof -
  let ?s = "example_conf_dir [(''a.conf'', example_migrated_conf), (''b.conf'', example_plain_conf)]"
  have h1: "libtribler_conf ?s = None"
    by (simp add: example_conf_dir_def)
  have h2: "tribler_conf ?s = None"
    by (simp add: example_conf_dir_def)
  have h3: "glob ''.state'' ?s = []"
    by (simp add: glob_def ends_with_def example_conf_dir_def)
  have names: "glob ''.conf'' ?s = [''a.conf'', ''b.conf'']"
    by (simp add: glob_def ends_with_def example_conf_dir_def)
  have a: "map_of (checkpoint_dir ?s) ''a.conf'' = Some (Structured example_migrated_conf)
           \<and> dlc_load example_env (Structured example_migrated_conf) = Inr example_migrated_conf
           \<and> get_metainfo example_env example_migrated_conf =
               Inr (PList [PStr ''a.txt'', PStr ''b.txt'', PStr ''c.txt''])
           \<and> map_of example_migrated_conf ''download_defaults'' =
               Some [(''hops'', PInt 1), (''selected_file_indexes'', PList [PInt 0, PInt 2])]
           \<and> \<not> (truthy (case map_of [(''hops'', PInt 1),
                                       (''selected_file_indexes'', PList [PInt 0, PInt 2])]
                                 ''selected_files'' of None \<Rightarrow> PNone | Some v \<Rightarrow> v)
                 \<and> truthy (PList [PStr ''a.txt'', PStr ''b.txt'', PStr ''c.txt'']))"
    by (simp add: example_conf_dir_def example_env_def example_load_def example_metainfo_def
          example_migrated_conf_def)
  have b: "map_of (checkpoint_dir ?s) ''b.conf'' = Some (Structured example_plain_conf)
           \<and> dlc_load example_env (Structured example_plain_conf) = Inr example_plain_conf
           \<and> get_metainfo example_env example_plain_conf =
               Inr (PList [PStr ''a.txt'', PStr ''b.txt'', PStr ''c.txt''])
           \<and> map_of example_plain_conf ''download_defaults'' = Some [(''hops'', PInt 1)]
           \<and> \<not> (truthy (case map_of [(''hops'', PInt 1)] ''selected_files'' of
                           None \<Rightarrow> PNone | Some v \<Rightarrow> v)
                 \<and> truthy (PList [PStr ''a.txt'', PStr ''b.txt'', PStr ''c.txt'']))"
    by (simp add: example_conf_dir_def example_env_def example_load_def example_metainfo_def
          example_plain_conf_def)
  have h4: "\<forall>name \<in> set (glob ''.conf'' ?s).
           \<exists>content cfg metainfo defaults.
             map_of (checkpoint_dir ?s) name = Some content
             \<and> dlc_load example_env content = Inr cfg
             \<and> get_metainfo example_env cfg = Inr metainfo
             \<and> map_of cfg ''download_defaults'' = Some defaults
             \<and> \<not> (truthy (case map_of defaults ''selected_files'' of None \<Rightarrow> PNone | Some v \<Rightarrow> v)
                   \<and> truthy metainfo)"
    unfolding names using a b by (auto simp del: truthy.simps map_of.simps)
  show ?thesis
    by (rule rerun_on_migrated_directory_is_noop [OF h1 h2 h3 h4])
qed

end
